theory Spec2Isabelle
  imports Complex_Main "HOL-Library.Word" "HOL-Library.Product_Lexorder"
begin

section \<open>Values of the JavaScript runtime\<close>

text \<open>
  Identifiers are the opaque TEXT keys of the store: \<open>ident\<close> stands for the strings
  that can be keys, and \<open>string\<close> only writes them down. A JavaScript string is a
  sequence of UTF-16 code units; \<open>length\<close> counts code units, as
  \<^verbatim>\<open>String.prototype.length\<close> does. Timestamps are milliseconds since the epoch.
\<close>

type_synonym ident = string
type_synonym jsstring = "16 word list"
type_synonym date = int

definition js :: "string \<Rightarrow> jsstring" where
  "js s = map of_char s"

text \<open>
  A field of a parsed JSON request body is typed \<^verbatim>\<open>any\<close>. \<open>JUndefined\<close> is an absent
  field, \<open>JObj\<close> any array or object (always truthy, and without string methods).
\<close>

datatype jsvalue = JUndefined | JNull | JBool bool | JNum rat | JStr jsstring | JObj

fun truthy :: "jsvalue \<Rightarrow> bool" where
  "truthy JUndefined = False"
| "truthy JNull = False"
| "truthy (JBool b) = b"
| "truthy (JNum r) = (r \<noteq> 0)"
| "truthy (JStr s) = (s \<noteq> [])"
| "truthy JObj = True"

text \<open>
  The code units that \<^verbatim>\<open>String.prototype.trim\<close> strips: ECMAScript WhiteSpace (TAB, VT, FF,
  SP, NBSP, ZWNBSP and the Unicode space separators) and LineTerminator (LF, CR, LS, PS).
\<close>

definition isWhiteSpace :: "16 word \<Rightarrow> bool" where
  "isWhiteSpace c =
    (c \<in> {0x9, 0xA, 0xB, 0xC, 0xD, 0x20, 0xA0, 0x1680, 0x2028, 0x2029, 0x202F, 0x205F, 0x3000, 0xFEFF}
     \<or> (0x2000 \<le> c \<and> c \<le> 0x200A))"

definition trim :: "jsstring \<Rightarrow> jsstring" where
  "trim s = rev (dropWhile isWhiteSpace (rev (dropWhile isWhiteSpace s)))"

section \<open>The data model\<close>

text \<open>The enums and tables of the store, after the migration that creates them.\<close>

datatype userRole = STUDENT | COMPANY
datatype internshipType = REMOTE | IN_OFFICE | HYBRID
datatype applicationStatus = PENDING | SHORTLISTED | ACCEPTED | REJECTED
datatype campaignStatus = ACTIVE | PAUSED | COMPLETED | EXPIRED
datatype subscriptionStatus = SubACTIVE | SubCANCELED | SubEXPIRED
datatype paymentStatus = PayPENDING | PayCOMPLETED | PayFAILED | PayREFUNDED

record user =
  u_id :: ident
  u_email :: jsstring
  u_password :: jsstring
  u_name :: jsstring
  u_role :: userRole
  u_companyId :: "ident option"

record company =
  co_id :: ident
  co_name :: jsstring
  co_website :: "jsstring option"
  co_logoUrl :: "jsstring option"
  co_description :: "jsstring option"

record campaign =
  c_id :: ident
  c_title :: jsstring
  c_description :: "jsstring option"
  c_budget :: rat
  c_status :: campaignStatus
  c_startDate :: date
  c_endDate :: date
  c_maxInternships :: int
  c_createdAt :: date
  c_updatedAt :: date
  c_companyId :: ident

record campaignPayment =
  p_id :: ident
  p_campaignId :: ident
  p_amount :: rat
  p_paymentMethod :: jsstring
  p_transactionId :: "jsstring option"
  p_status :: paymentStatus
  p_paidAt :: "date option"
  p_createdAt :: date

record internship =
  i_id :: ident
  i_title :: jsstring
  i_description :: jsstring
  i_location :: jsstring
  i_type :: internshipType
  i_stipend :: "int option"
  i_duration :: jsstring
  i_postedAt :: date
  i_deadline :: date
  i_isActive :: bool
  i_companyId :: ident
  i_campaignId :: ident

record application =
  a_id :: ident
  a_coverLetter :: "jsstring option"
  a_status :: applicationStatus
  a_createdAt :: date
  a_updatedAt :: date
  a_internshipId :: ident
  a_userId :: ident

record studentSubscription =
  s_id :: ident
  s_userId :: ident
  s_planId :: ident
  s_status :: subscriptionStatus
  s_startedAt :: date
  s_endsAt :: date
  s_createdAt :: date
  s_updatedAt :: date

record studentPlan =
  pl_id :: ident
  pl_name :: jsstring
  pl_price :: rat
  pl_maxApplicationsPerMonth :: "int option"
  pl_isActive :: bool

text \<open>The store: one list of rows per table, in insertion order.\<close>

record db =
  users :: "user list"
  companies :: "company list"
  campaigns :: "campaign list"
  campaignPayments :: "campaignPayment list"
  internships :: "internship list"
  applications :: "application list"
  subscriptions :: "studentSubscription list"
  plans :: "studentPlan list"
  internshipSkills :: "(ident \<times> ident) list"

text \<open>
  The last table is the relation between internships and skills: a pair of an
  internship's id and a skill's id.

  What a handler takes from outside the store: the clock (\<^verbatim>\<open>new Date()\<close>, read once per
  request in the model), the identifiers generated for the rows it creates, and the
  built-ins of the runtime whose result depends on the server (the local calendar, the
  number and date parsers, the regular expressions, the hash function, the signing
  secret). \<open>None\<close> is NaN or an invalid date; for \<open>bcryptHash\<close>, a rejected argument.
  Two fields stand for what the store leaves open: \<open>acceptsText\<close>, whether the store
  layer takes a string as it is (beyond the one refusal modelled below), and
  \<open>tieOrder\<close>, the order in which a query returns rows with equal sort keys.
\<close>

record env =
  now :: date
  newId :: ident
  newId2 :: ident
  startOfMonth :: "date \<Rightarrow> date"
  parseFloat :: "jsvalue \<Rightarrow> rat option"
  parseInt :: "jsvalue \<Rightarrow> int option"
  newDate :: "jsvalue \<Rightarrow> date option"
  emailRegexTest :: "jsvalue \<Rightarrow> bool"
  urlRegexTest :: "jsvalue \<Rightarrow> bool"
  passwordLengthLt6 :: "jsvalue \<Rightarrow> bool"
  bcryptHash :: "jsvalue \<Rightarrow> jsstring option"
  equalsInsensitive :: "jsstring \<Rightarrow> jsstring \<Rightarrow> bool"
  jwtSecretSet :: bool
  acceptsText :: "jsstring \<Rightarrow> bool"
  tieOrder :: "internship \<Rightarrow> nat"

text \<open>
  A TEXT column cannot hold the code unit U+0000: a write or a query that carries a
  string with it throws, as does one with a string that the store layer does not take
  for another reason.
\<close>

definition storesText :: "env \<Rightarrow> jsstring \<Rightarrow> bool" where
  "storesText env s = (0 \<notin> set s \<and> acceptsText env s)"

text \<open>
  The responses of the handlers, named by the error taxonomy. \<open>ValidationError\<close>,
  \<open>Closed\<close>, \<open>CampaignInactive\<close>, \<open>DeadlinePassed\<close>, \<open>DuplicateApplication\<close> and
  \<open>InvalidTransition\<close> are sent with HTTP status 400, \<open>NotFound\<close> with 404,
  \<open>SubscriptionRequired\<close>, \<open>QuotaExceeded\<close> (carrying applicationsUsed and
  applicationLimit) and \<open>NotPending\<close> with 403, \<open>Unauthenticated\<close> with 401, \<open>Conflict\<close>
  with 409, \<open>InternalError\<close> with 500 (the handler's catch block).
\<close>

datatype 'a response =
    Success 'a
  | ValidationError
  | NotFound
  | Closed
  | CampaignInactive
  | DeadlinePassed
  | DuplicateApplication
  | SubscriptionRequired
  | QuotaExceeded int int
  | InvalidTransition
  | NotPending
  | Unauthenticated
  | Conflict
  | InternalError

section \<open>Queries of the store\<close>

definition findUser :: "db \<Rightarrow> ident \<Rightarrow> user option" where
  "findUser db uid = find (\<lambda>u. u_id u = uid) (users db)"

definition findCompany :: "db \<Rightarrow> ident \<Rightarrow> company option" where
  "findCompany db cid = find (\<lambda>c. co_id c = cid) (companies db)"

definition findCampaign :: "db \<Rightarrow> ident \<Rightarrow> campaign option" where
  "findCampaign db cid = find (\<lambda>c. c_id c = cid) (campaigns db)"

definition findInternship :: "db \<Rightarrow> ident \<Rightarrow> internship option" where
  "findInternship db iid = find (\<lambda>i. i_id i = iid) (internships db)"

definition findPlan :: "db \<Rightarrow> ident \<Rightarrow> studentPlan option" where
  "findPlan db pid = find (\<lambda>p. pl_id p = pid) (plans db)"

text \<open>\<^verbatim>\<open>application.findUnique\<close> on the key (internshipId, userId).\<close>

definition findApplication :: "db \<Rightarrow> ident \<Rightarrow> ident \<Rightarrow> application option" where
  "findApplication db iid uid =
    find (\<lambda>a. a_internshipId a = iid \<and> a_userId a = uid) (applications db)"

text \<open>
  \<^verbatim>\<open>user.findUnique\<close> with \<^verbatim>\<open>include: { company: true }\<close>, then \<^verbatim>\<open>user?.company\<close>.
\<close>

definition userCompany :: "db \<Rightarrow> ident \<Rightarrow> company option" where
  "userCompany db uid =
    (case findUser db uid of
       None \<Rightarrow> None
     | Some u \<Rightarrow> (case u_companyId u of None \<Rightarrow> None | Some cid \<Rightarrow> findCompany db cid))"

text \<open>
  \<^verbatim>\<open>orderBy: { createdAt: 'desc' }, take: 1\<close>: the row created last; among rows created at
  the same instant, the one stored first.
\<close>

fun newest :: "studentSubscription list \<Rightarrow> studentSubscription option" where
  "newest [] = None"
| "newest (s # ss) =
    (case newest ss of
       None \<Rightarrow> Some s
     | Some t \<Rightarrow> if s_createdAt s < s_createdAt t then Some t else Some s)"

text \<open>
  The subscriptions included with the user at time \<open>t\<close>: status ACTIVE and
  \<^verbatim>\<open>endsAt: { gte: new Date() }\<close>, newest first, at most one. No user, no subscription.
\<close>

definition activeSubscription :: "db \<Rightarrow> date \<Rightarrow> ident \<Rightarrow> studentSubscription option" where
  "activeSubscription db t uid =
    (case findUser db uid of
       None \<Rightarrow> None
     | Some u \<Rightarrow>
         newest (filter (\<lambda>s. s_userId s = uid \<and> s_status s = SubACTIVE \<and> t \<le> s_endsAt s)
           (subscriptions db)))"

text \<open>
  \<^verbatim>\<open>application.count\<close> of the student's applications with
  \<^verbatim>\<open>createdAt: { gte: startOfMonth }\<close>.
\<close>

definition applicationsThisMonth :: "env \<Rightarrow> db \<Rightarrow> ident \<Rightarrow> int" where
  "applicationsThisMonth env db uid =
    int (length (filter (\<lambda>a. a_userId a = uid \<and> startOfMonth env (now env) \<le> a_createdAt a)
      (applications db)))"

section \<open>The apply operation\<close>

text \<open>
  A write that the store rejects throws. The handlers tell the unique-constraint
  violation (error code P2002) from every other failure.
\<close>

datatype storeError = P2002 | OtherError

text \<open>
  \<^verbatim>\<open>application.create\<close>. The store rejects the row when its cover letter is a text it
  does not hold, when its primary key or the unique index on (internshipId, userId) is
  taken (P2002), or when a foreign key has no target.
\<close>

definition createApplication :: "env \<Rightarrow> db \<Rightarrow> application \<Rightarrow> storeError + db" where
  "createApplication env db a =
    (if (case a_coverLetter a of None \<Rightarrow> False | Some s \<Rightarrow> \<not> storesText env s)
       then Inl OtherError
     else if list_ex (\<lambda>b. a_id b = a_id a) (applications db) then Inl P2002
     else if list_ex (\<lambda>b. a_internshipId b = a_internshipId a \<and> a_userId b = a_userId a)
        (applications db) then Inl P2002
     else if findInternship db (a_internshipId a) = None \<or> findUser db (a_userId a) = None
       then Inl OtherError
     else Inr (db\<lparr>applications := applications db @ [a]\<rparr>))"

text \<open>
  The checks of \<^verbatim>\<open>applyToInternship\<close>, in the order of the source. \<open>Inl\<close> is the response
  of the first check that fails, \<open>Inr\<close> the cover letter when all pass. A truthy cover
  letter that is not a string has no \<^verbatim>\<open>trim\<close> method: the call throws and the catch
  block answers 500. A cap of 0 is falsy, as null is.
\<close>

definition applyChecks ::
  "env \<Rightarrow> db \<Rightarrow> ident \<Rightarrow> ident \<Rightarrow> jsvalue \<Rightarrow> application response + jsstring" where
  "applyChecks env db uid iid coverLetter =
    (if \<not> truthy coverLetter then Inl ValidationError
     else case coverLetter of
       JStr s \<Rightarrow>
         if length (trim s) < 50 then Inl ValidationError
         else if 2000 < length s then Inl ValidationError
         else (case findInternship db iid of
           None \<Rightarrow> Inl NotFound
         | Some i \<Rightarrow>
             if \<not> i_isActive i then Inl Closed
             else (case findCampaign db (i_campaignId i) of
               None \<Rightarrow> Inl InternalError
             | Some c \<Rightarrow>
                 if c_status c \<noteq> ACTIVE then Inl CampaignInactive
                 else if i_deadline i < now env then Inl DeadlinePassed
                 else if findApplication db iid uid \<noteq> None then Inl DuplicateApplication
                 else (case activeSubscription db (now env) uid of
                   None \<Rightarrow> Inl SubscriptionRequired
                 | Some sub \<Rightarrow>
                     (case findPlan db (s_planId sub) of
                       None \<Rightarrow> Inl InternalError
                     | Some plan \<Rightarrow>
                         (case pl_maxApplicationsPerMonth plan of
                           None \<Rightarrow> Inr s
                         | Some cap \<Rightarrow>
                             if cap = 0 then Inr s
                             else if cap \<le> applicationsThisMonth env db uid
                               then Inl (QuotaExceeded (applicationsThisMonth env db uid) cap)
                             else Inr s)))))
     | _ \<Rightarrow> Inl InternalError)"

text \<open>
  The creation that follows the checks. The row takes its createdAt from the column
  default and its updatedAt from the store layer, both the time of creation. Whatever
  the store throws, the catch block answers 500.
\<close>

definition applyCreate ::
  "env \<Rightarrow> db \<Rightarrow> ident \<Rightarrow> ident \<Rightarrow> jsstring \<Rightarrow> application response \<times> db" where
  "applyCreate env db uid iid s =
    (let a = \<lparr>a_id = newId env, a_coverLetter = Some (trim s), a_status = PENDING,
               a_createdAt = now env, a_updatedAt = now env,
               a_internshipId = iid, a_userId = uid\<rparr>
     in case createApplication env db a of
          Inl e \<Rightarrow> (InternalError, db)
        | Inr db' \<Rightarrow> (Success a, db'))"

text \<open>
  \<^verbatim>\<open>applyToInternship\<close> on one store: the checks, then the creation. Each query is a
  round trip of its own, so under concurrent requests the creation may meet a later
  store than the checks read; \<open>applyChecks\<close> and \<open>applyCreate\<close> are then applied to the
  two stores.
\<close>

definition applyToInternship ::
  "env \<Rightarrow> db \<Rightarrow> ident \<Rightarrow> ident \<Rightarrow> jsvalue \<Rightarrow> application response \<times> db" where
  "applyToInternship env db uid iid coverLetter =
    (case applyChecks env db uid iid coverLetter of
       Inl r \<Rightarrow> (r, db)
     | Inr s \<Rightarrow> applyCreate env db uid iid s)"

section \<open>The company's status update\<close>

text \<open>
  \<^verbatim>\<open>!status || !validStatuses.includes(status)\<close>: \<^verbatim>\<open>includes\<close> compares strictly, so only
  the four strings pass.
\<close>

definition parseApplicationStatus :: "jsvalue \<Rightarrow> applicationStatus option" where
  "parseApplicationStatus v =
    (case v of
       JStr s \<Rightarrow>
         if s = js ''PENDING'' then Some PENDING
         else if s = js ''SHORTLISTED'' then Some SHORTLISTED
         else if s = js ''ACCEPTED'' then Some ACCEPTED
         else if s = js ''REJECTED'' then Some REJECTED
         else None
     | _ \<Rightarrow> None)"

text \<open>
  \<^verbatim>\<open>application.findFirst\<close> with the application's id and
  \<^verbatim>\<open>internship: { company: { id: user.company.id } }\<close>.
\<close>

definition findCompanyApplication :: "db \<Rightarrow> company \<Rightarrow> ident \<Rightarrow> application option" where
  "findCompanyApplication db co aid =
    find (\<lambda>a. a_id a = aid \<and>
        (case findInternship db (a_internshipId a) of
           None \<Rightarrow> False
         | Some i \<Rightarrow> i_companyId i = co_id co))
      (applications db)"

text \<open>\<^verbatim>\<open>application.update\<close> on the row with the given id, found by the query before it.\<close>

definition updateApplicationRow :: "db \<Rightarrow> ident \<Rightarrow> (application \<Rightarrow> application) \<Rightarrow> db" where
  "updateApplicationRow db aid f =
    db\<lparr>applications := map (\<lambda>a. if a_id a = aid then f a else a) (applications db)\<rparr>"

definition updateApplicationStatus ::
  "env \<Rightarrow> db \<Rightarrow> ident \<Rightarrow> ident \<Rightarrow> jsvalue \<Rightarrow> application response \<times> db" where
  "updateApplicationStatus env db uid aid status =
    (case parseApplicationStatus status of
       None \<Rightarrow> (ValidationError, db)
     | Some st \<Rightarrow>
         (case userCompany db uid of
            None \<Rightarrow> (NotFound, db)
          | Some co \<Rightarrow>
              (case findCompanyApplication db co aid of
                 None \<Rightarrow> (NotFound, db)
               | Some a \<Rightarrow>
                   if a_status a = ACCEPTED \<and> st \<noteq> ACCEPTED then (InvalidTransition, db)
                   else (Success (a\<lparr>a_status := st, a_updatedAt := now env\<rparr>),
                         updateApplicationRow db aid
                           (\<lambda>b. b\<lparr>a_status := st, a_updatedAt := now env\<rparr>)))))"

section \<open>The student's cover-letter edit\<close>

text \<open>
  \<^verbatim>\<open>updateApplication\<close>: the update writes the cover letter, and the store layer stamps
  updatedAt on an update that writes a field. When the store does not hold the text,
  \<^verbatim>\<open>application.update\<close> throws and the catch block answers 500.
\<close>

definition updateApplication ::
  "env \<Rightarrow> db \<Rightarrow> ident \<Rightarrow> ident \<Rightarrow> jsvalue \<Rightarrow> application response \<times> db" where
  "updateApplication env db uid aid coverLetter =
    (if \<not> truthy coverLetter then (ValidationError, db)
     else case coverLetter of
       JStr s \<Rightarrow>
         if length (trim s) < 50 then (ValidationError, db)
         else (case find (\<lambda>a. a_id a = aid \<and> a_userId a = uid) (applications db) of
           None \<Rightarrow> (NotFound, db)
         | Some a \<Rightarrow>
             if a_status a \<noteq> PENDING then (NotPending, db)
             else if \<not> storesText env (trim s) then (InternalError, db)
             else (Success (a\<lparr>a_coverLetter := Some (trim s), a_updatedAt := now env\<rparr>),
                   updateApplicationRow db aid
                     (\<lambda>b. b\<lparr>a_coverLetter := Some (trim s), a_updatedAt := now env\<rparr>)))
     | _ \<Rightarrow> (InternalError, db))"

section \<open>The campaign launch\<close>

text \<open>
  The store layer checks each argument of a write or a query against the column's type:
  a TEXT column takes a string that the store holds, a nullable one also null or
  nothing. \<open>None\<close>: the argument is refused and the call throws.
\<close>

definition asText :: "env \<Rightarrow> jsvalue \<Rightarrow> jsstring option" where
  "asText env v = (case v of JStr s \<Rightarrow> if storesText env s then Some s else None | _ \<Rightarrow> None)"

definition asOptText :: "env \<Rightarrow> jsvalue \<Rightarrow> jsstring option option" where
  "asOptText env v =
    (case v of
       JUndefined \<Rightarrow> Some None
     | JNull \<Rightarrow> Some None
     | JStr s \<Rightarrow> if storesText env s then Some (Some s) else None
     | _ \<Rightarrow> None)"

definition isInt32 :: "int \<Rightarrow> bool" where
  "isInt32 n = (- 2147483648 \<le> n \<and> n \<le> 2147483647)"

record launchBody =
  l_title :: jsvalue
  l_description :: jsvalue
  l_budget :: jsvalue
  l_endDate :: jsvalue
  l_maxInternships :: jsvalue
  l_paymentMethod :: jsvalue
  l_transactionId :: jsvalue

text \<open>\<^verbatim>\<open>campaign.create\<close>: primary key, and the foreign key to the company.\<close>

definition createCampaign :: "db \<Rightarrow> campaign \<Rightarrow> storeError + db" where
  "createCampaign db c =
    (if list_ex (\<lambda>d. c_id d = c_id c) (campaigns db) then Inl P2002
     else if findCompany db (c_companyId c) = None then Inl OtherError
     else Inr (db\<lparr>campaigns := campaigns db @ [c]\<rparr>))"

text \<open>
  \<^verbatim>\<open>campaignPayment.create\<close>: primary key, the unique index on campaignId, and the foreign
  key to the campaign.
\<close>

definition createCampaignPayment :: "db \<Rightarrow> campaignPayment \<Rightarrow> storeError + db" where
  "createCampaignPayment db p =
    (if list_ex (\<lambda>q. p_id q = p_id p) (campaignPayments db) then Inl P2002
     else if list_ex (\<lambda>q. p_campaignId q = p_campaignId p) (campaignPayments db) then Inl P2002
     else if findCampaign db (p_campaignId p) = None then Inl OtherError
     else Inr (db\<lparr>campaignPayments := campaignPayments db @ [p]\<rparr>))"

text \<open>
  The data of the two creations. \<open>None\<close>: an argument is not of the column's type (a
  title that is not a string, NaN for the budget or the cap, an invalid date), and the
  creation throws. startDate and createdAt take the column default, paidAt stays null.
\<close>

definition campaignData :: "env \<Rightarrow> company \<Rightarrow> launchBody \<Rightarrow> campaign option" where
  "campaignData env co body =
    (case asText env (l_title body) of None \<Rightarrow> None | Some t \<Rightarrow>
     (case asOptText env (l_description body) of None \<Rightarrow> None | Some d \<Rightarrow>
     (case parseFloat env (l_budget body) of None \<Rightarrow> None | Some b \<Rightarrow>
     (case newDate env (l_endDate body) of None \<Rightarrow> None | Some e \<Rightarrow>
     (case parseInt env (l_maxInternships body) of None \<Rightarrow> None | Some m \<Rightarrow>
        if \<not> isInt32 m then None
        else Some \<lparr>c_id = newId env, c_title = t, c_description = d, c_budget = b,
                   c_status = ACTIVE, c_startDate = now env, c_endDate = e,
                   c_maxInternships = m, c_createdAt = now env, c_updatedAt = now env,
                   c_companyId = co_id co\<rparr>)))))"

definition paymentData :: "env \<Rightarrow> campaign \<Rightarrow> launchBody \<Rightarrow> campaignPayment option" where
  "paymentData env newCampaign body =
    (case parseFloat env (l_budget body) of None \<Rightarrow> None | Some amt \<Rightarrow>
     (case asText env (l_paymentMethod body) of None \<Rightarrow> None | Some m \<Rightarrow>
     (case asOptText env (l_transactionId body) of None \<Rightarrow> None | Some tid \<Rightarrow>
        Some \<lparr>p_id = newId2 env, p_campaignId = c_id newCampaign, p_amount = amt,
              p_paymentMethod = m, p_transactionId = tid,
              p_status = (if truthy (l_transactionId body) then PayCOMPLETED else PayPENDING),
              p_paidAt = None, p_createdAt = now env\<rparr>)))"

text \<open>
  The body of \<^verbatim>\<open>prisma.$transaction\<close>: the campaign, then its payment, on the
  transaction's own view of the store. \<open>None\<close>: a step threw and the transaction is
  rolled back.
\<close>

definition launchTransaction :: "env \<Rightarrow> db \<Rightarrow> company \<Rightarrow> launchBody \<Rightarrow> (campaign \<times> db) option" where
  "launchTransaction env db co body =
    (case campaignData env co body of None \<Rightarrow> None | Some newCampaign \<Rightarrow>
     (case createCampaign db newCampaign of Inl e \<Rightarrow> None | Inr tx1 \<Rightarrow>
     (case paymentData env newCampaign body of None \<Rightarrow> None | Some p \<Rightarrow>
     (case createCampaignPayment tx1 p of Inl e \<Rightarrow> None | Inr tx2 \<Rightarrow>
        Some (newCampaign, tx2)))))"

definition launchCampaign ::
  "env \<Rightarrow> db \<Rightarrow> ident \<Rightarrow> launchBody \<Rightarrow> campaign response \<times> db" where
  "launchCampaign env db uid body =
    (if \<not> truthy (l_title body) \<or> \<not> truthy (l_budget body) \<or> \<not> truthy (l_endDate body)
        \<or> \<not> truthy (l_maxInternships body) \<or> \<not> truthy (l_paymentMethod body)
     then (ValidationError, db)
     else case userCompany db uid of
       None \<Rightarrow> (NotFound, db)
     | Some co \<Rightarrow>
         (case launchTransaction env db co body of
            None \<Rightarrow> (InternalError, db)
          | Some (newCampaign, db') \<Rightarrow> (Success newCampaign, db')))"

section \<open>The campaign edit\<close>

record editBody =
  e_title :: jsvalue
  e_description :: jsvalue
  e_endDate :: jsvalue
  e_status :: jsvalue

text \<open>
  \<^verbatim>\<open>status && ['ACTIVE', 'PAUSED', 'COMPLETED'].includes(status)\<close>: the status to write, if
  any.
\<close>

definition editableStatus :: "jsvalue \<Rightarrow> campaignStatus option" where
  "editableStatus v =
    (case v of
       JStr s \<Rightarrow>
         if s = js ''ACTIVE'' then Some ACTIVE
         else if s = js ''PAUSED'' then Some PAUSED
         else if s = js ''COMPLETED'' then Some COMPLETED
         else None
     | _ \<Rightarrow> None)"

text \<open>
  \<^verbatim>\<open>updateData\<close>: only the fields that the request provides are included; an absent
  field is \<open>None\<close>, a description to be written is null or a string.
\<close>

record updateData =
  ud_title :: "jsstring option"
  ud_description :: "jsstring option option"
  ud_endDate :: "date option"
  ud_status :: "campaignStatus option"

text \<open>
  The update data of a request. \<open>None\<close>: an included field is not of the column's type
  (a title that is not a string, an invalid date), and the update throws.
\<close>

definition buildUpdateData :: "env \<Rightarrow> editBody \<Rightarrow> updateData option" where
  "buildUpdateData env body =
    (case (if truthy (e_title body) then map_option Some (asText env (e_title body))
           else Some None) of
       None \<Rightarrow> None
     | Some t \<Rightarrow>
     (case (if e_description body \<noteq> JUndefined
            then map_option Some (asOptText env (e_description body))
            else Some None) of
       None \<Rightarrow> None
     | Some d \<Rightarrow>
     (case (if truthy (e_endDate body) then map_option Some (newDate env (e_endDate body))
            else Some None) of
       None \<Rightarrow> None
     | Some e \<Rightarrow>
        Some \<lparr>ud_title = t, ud_description = d, ud_endDate = e,
              ud_status = editableStatus (e_status body)\<rparr>)))"

text \<open>
  \<^verbatim>\<open>campaign.update\<close> on one row: the included fields are written, and the store layer
  stamps updatedAt with them. With no field included nothing is written, and updatedAt
  stays.
\<close>

definition writeUpdateData :: "env \<Rightarrow> updateData \<Rightarrow> campaign \<Rightarrow> campaign" where
  "writeUpdateData env ud c =
    (if ud_title ud = None \<and> ud_description ud = None \<and> ud_endDate ud = None
        \<and> ud_status ud = None
     then c
     else c\<lparr>c_title := (case ud_title ud of None \<Rightarrow> c_title c | Some t \<Rightarrow> t),
            c_description := (case ud_description ud of None \<Rightarrow> c_description c | Some d \<Rightarrow> d),
            c_endDate := (case ud_endDate ud of None \<Rightarrow> c_endDate c | Some e \<Rightarrow> e),
            c_status := (case ud_status ud of None \<Rightarrow> c_status c | Some st \<Rightarrow> st),
            c_updatedAt := now env\<rparr>)"

definition editCampaign ::
  "env \<Rightarrow> db \<Rightarrow> ident \<Rightarrow> ident \<Rightarrow> editBody \<Rightarrow> campaign response \<times> db" where
  "editCampaign env db uid cid body =
    (case userCompany db uid of
       None \<Rightarrow> (NotFound, db)
     | Some co \<Rightarrow>
         (case find (\<lambda>c. c_id c = cid \<and> c_companyId c = co_id co) (campaigns db) of
            None \<Rightarrow> (NotFound, db)
          | Some existingCampaign \<Rightarrow>
              (case buildUpdateData env body of
                 None \<Rightarrow> (InternalError, db)
               | Some ud \<Rightarrow>
                   (Success (writeUpdateData env ud existingCampaign),
                    db\<lparr>campaigns :=
                         map (\<lambda>c. if c_id c = cid then writeUpdateData env ud c else c)
                           (campaigns db)\<rparr>))))"

section \<open>The signups\<close>

text \<open>
  \<^verbatim>\<open>user.create\<close>: primary key and the unique index on email (P2002), and the foreign
  key to the company. \<^verbatim>\<open>company.create\<close>: primary key.
\<close>

definition createUser :: "db \<Rightarrow> user \<Rightarrow> storeError + db" where
  "createUser db u =
    (if list_ex (\<lambda>v. u_id v = u_id u) (users db) then Inl P2002
     else if list_ex (\<lambda>v. u_email v = u_email u) (users db) then Inl P2002
     else if (case u_companyId u of None \<Rightarrow> False | Some cid \<Rightarrow> findCompany db cid = None)
       then Inl OtherError
     else Inr (db\<lparr>users := users db @ [u]\<rparr>))"

definition createCompany :: "db \<Rightarrow> company \<Rightarrow> storeError + db" where
  "createCompany db c =
    (if list_ex (\<lambda>d. co_id d = co_id c) (companies db) then Inl P2002
     else Inr (db\<lparr>companies := companies db @ [c]\<rparr>))"

record studentSignupBody =
  ss_name :: jsvalue
  ss_email :: jsvalue
  ss_password :: jsvalue

text \<open>
  The student signup. The catch block answers a unique-constraint violation of the
  creation with 409, every other failure with 500. The signing secret is read after the
  user is created.
\<close>

definition studentSignup :: "env \<Rightarrow> db \<Rightarrow> studentSignupBody \<Rightarrow> user response \<times> db" where
  "studentSignup env db body =
    (if \<not> truthy (ss_name body) \<or> \<not> truthy (ss_email body) \<or> \<not> truthy (ss_password body)
     then (ValidationError, db)
     else if \<not> emailRegexTest env (ss_email body) then (ValidationError, db)
     else if passwordLengthLt6 env (ss_password body) then (ValidationError, db)
     else case asText env (ss_email body) of
       None \<Rightarrow> (InternalError, db)
     | Some email \<Rightarrow>
         if find (\<lambda>u. u_email u = email) (users db) \<noteq> None then (Conflict, db)
         else (case bcryptHash env (ss_password body) of
           None \<Rightarrow> (InternalError, db)
         | Some hashedPassword \<Rightarrow>
             (case asText env (ss_name body) of
               None \<Rightarrow> (InternalError, db)
             | Some name \<Rightarrow>
                 (let newUser = \<lparr>u_id = newId env, u_email = email,
                        u_password = hashedPassword, u_name = name, u_role = STUDENT,
                        u_companyId = None\<rparr>
                  in case createUser db newUser of
                       Inl P2002 \<Rightarrow> (Conflict, db)
                     | Inl OtherError \<Rightarrow> (InternalError, db)
                     | Inr db' \<Rightarrow>
                         if \<not> jwtSecretSet env then (InternalError, db')
                         else (Success newUser, db')))))"

record companySignupBody =
  cs_name :: jsvalue
  cs_email :: jsvalue
  cs_password :: jsvalue
  cs_companyName :: jsvalue
  cs_companyWebsite :: jsvalue
  cs_companyDescription :: jsvalue
  cs_companyLogo :: jsvalue

text \<open>\<^verbatim>\<open>value || null\<close> as the argument of a nullable TEXT column.\<close>

definition orNull :: "env \<Rightarrow> jsvalue \<Rightarrow> jsstring option option" where
  "orNull env v = (if truthy v then asOptText env v else Some None)"

text \<open>
  The transaction of the company signup: the company, then the user linked to it.
  \<open>Inl\<close>: a step threw and the transaction is rolled back.
\<close>

definition signupTransaction ::
  "env \<Rightarrow> db \<Rightarrow> companySignupBody \<Rightarrow> jsstring \<Rightarrow> jsstring \<Rightarrow> jsstring
    \<Rightarrow> storeError + (user \<times> db)" where
  "signupTransaction env db body email companyName hashedPassword =
    (case orNull env (cs_companyWebsite body) of None \<Rightarrow> Inl OtherError | Some website \<Rightarrow>
     (case orNull env (cs_companyDescription body) of None \<Rightarrow> Inl OtherError | Some description \<Rightarrow>
     (case orNull env (cs_companyLogo body) of None \<Rightarrow> Inl OtherError | Some logoUrl \<Rightarrow>
     (case createCompany db \<lparr>co_id = newId env, co_name = companyName,
              co_website = website, co_logoUrl = logoUrl, co_description = description\<rparr> of
        Inl e \<Rightarrow> Inl e
      | Inr tx1 \<Rightarrow>
     (case asText env (cs_name body) of None \<Rightarrow> Inl OtherError | Some name \<Rightarrow>
     (let newUser = \<lparr>u_id = newId2 env, u_email = email, u_password = hashedPassword,
                      u_name = name, u_role = COMPANY, u_companyId = Some (newId env)\<rparr>
      in case createUser tx1 newUser of
           Inl e \<Rightarrow> Inl e
         | Inr tx2 \<Rightarrow> Inr (newUser, tx2)))))))"

definition companySignup :: "env \<Rightarrow> db \<Rightarrow> companySignupBody \<Rightarrow> user response \<times> db" where
  "companySignup env db body =
    (if \<not> truthy (cs_name body) \<or> \<not> truthy (cs_email body) \<or> \<not> truthy (cs_password body)
        \<or> \<not> truthy (cs_companyName body)
     then (ValidationError, db)
     else if \<not> emailRegexTest env (cs_email body) then (ValidationError, db)
     else if passwordLengthLt6 env (cs_password body) then (ValidationError, db)
     else if truthy (cs_companyWebsite body) \<and> \<not> urlRegexTest env (cs_companyWebsite body)
       then (ValidationError, db)
     else case asText env (cs_email body) of
       None \<Rightarrow> (InternalError, db)
     | Some email \<Rightarrow>
         if find (\<lambda>u. u_email u = email) (users db) \<noteq> None then (Conflict, db)
         else (case asText env (cs_companyName body) of
           None \<Rightarrow> (InternalError, db)
         | Some companyName \<Rightarrow>
             if find (\<lambda>c. equalsInsensitive env (co_name c) companyName) (companies db) \<noteq> None
             then (Conflict, db)
             else (case bcryptHash env (cs_password body) of
               None \<Rightarrow> (InternalError, db)
             | Some hashedPassword \<Rightarrow>
                 (case signupTransaction env db body email companyName hashedPassword of
                    Inl P2002 \<Rightarrow> (Conflict, db)
                  | Inl OtherError \<Rightarrow> (InternalError, db)
                  | Inr (newUser, db') \<Rightarrow>
                      if \<not> jwtSecretSet env then (InternalError, db')
                      else (Success newUser, db')))))"

section \<open>The student-facing listing\<close>

text \<open>
  The where clause of \<^verbatim>\<open>getInternships\<close>: the three base conditions, and the optional
  conditions that the query parameters add (type, location, stipend range, skills, tags,
  search), each a condition on the row, all of them to hold.
\<close>

definition whereClause :: "db \<Rightarrow> date \<Rightarrow> (internship \<Rightarrow> bool) list \<Rightarrow> internship \<Rightarrow> bool" where
  "whereClause db t filters i =
    (i_isActive i \<and> t \<le> i_deadline i
     \<and> (case findCampaign db (i_campaignId i) of
           None \<Rightarrow> False
         | Some c \<Rightarrow> c_status c = ACTIVE)
     \<and> list_all (\<lambda>f. f i) filters)"

text \<open>
  \<^verbatim>\<open>orderBy: { [sortBy]: sortOrder }\<close> on a column with ordered values, and
  \<^verbatim>\<open>skip\<close>/\<^verbatim>\<open>take\<close>: a negative \<^verbatim>\<open>take\<close> counts from the end of the ordered rows.
  The store leaves the order of rows with equal sort keys open: they come in the order
  \<open>tie\<close> of the request's environment, which may be any.
\<close>

datatype 'k orderBy = Asc "internship \<Rightarrow> 'k" | Desc "internship \<Rightarrow> 'k"

fun orderRows ::
  "(internship \<Rightarrow> nat) \<Rightarrow> ('k::linorder) orderBy \<Rightarrow> internship list \<Rightarrow> internship list" where
  "orderRows tie (Asc k) rows = sort_key (\<lambda>i. (k i, tie i)) rows"
| "orderRows tie (Desc k) rows = rev (sort_key (\<lambda>i. (k i, tie i)) rows)"

definition paginate :: "nat \<Rightarrow> int \<Rightarrow> 'a list \<Rightarrow> 'a list" where
  "paginate skip tk rows =
    (if 0 \<le> tk then take (nat tk) (drop skip rows)
     else rev (take (nat (- tk)) (drop skip (rev rows))))"

text \<open>
  The query of a listing request: the optional conditions, the ordering (\<open>None\<close>: a
  sortBy or sortOrder that the store layer rejects), and the parsed page and limit
  (\<open>None\<close>: NaN).
\<close>

record 'k listQuery =
  q_filters :: "(internship \<Rightarrow> bool) list"
  q_orderBy :: "'k orderBy option"
  q_page :: "int option"
  q_limit :: "int option"

text \<open>
  \<^verbatim>\<open>getInternships\<close>: the count of the matching rows, then the requested page of them.
  The store layer rejects NaN and a negative \<^verbatim>\<open>skip\<close>. The response carries the rows of
  the page and totalInternships.
\<close>

definition getInternships ::
  "env \<Rightarrow> db \<Rightarrow> ('k::linorder) listQuery \<Rightarrow> (internship list \<times> nat) response" where
  "getInternships env db q =
    (let matching = filter (whereClause db (now env) (q_filters q)) (internships db);
         totalInternships = length matching
     in case q_page q of None \<Rightarrow> InternalError | Some page \<Rightarrow>
        (case q_limit q of None \<Rightarrow> InternalError | Some limit \<Rightarrow>
        (case q_orderBy q of None \<Rightarrow> InternalError | Some ord \<Rightarrow>
           if (page - 1) * limit < 0 then InternalError
           else Success (paginate (nat ((page - 1) * limit)) limit
                           (orderRows (tieOrder env) ord matching),
                         totalInternships))))"

section \<open>The detail view and its similar internships\<close>

text \<open>
  \<^verbatim>\<open>skills: { some: { id: { in: internship.skills.map(skill => skill.id) } } }\<close>: the row
  has a skill of the viewed internship.
\<close>

definition sharesSkill :: "db \<Rightarrow> internship \<Rightarrow> internship \<Rightarrow> bool" where
  "sharesSkill db internship i =
    list_ex (\<lambda>r. fst r = i_id i
        \<and> list_ex (\<lambda>v. fst v = i_id internship \<and> snd v = snd r) (internshipSkills db))
      (internshipSkills db)"

text \<open>
  The where clause of the similar internships: another internship, active, with a
  deadline not before now, of the same company or with a skill of the viewed one. It
  has no condition on the campaign.
\<close>

definition similarWhere :: "db \<Rightarrow> date \<Rightarrow> internship \<Rightarrow> internship \<Rightarrow> bool" where
  "similarWhere db t internship i =
    (i_id i \<noteq> i_id internship \<and> i_isActive i \<and> t \<le> i_deadline i
     \<and> (i_companyId i = i_companyId internship \<or> sharesSkill db internship i))"

text \<open>
  The response of the detail view: the internship with its campaign, the number of its
  applications, the caller's application, and the similar internships shown with it.
\<close>

record internshipDetails =
  d_internship :: internship
  d_campaign :: campaign
  d_applicationCount :: nat
  d_userApplication :: "application option"
  d_hasApplied :: bool
  d_canApply :: bool
  d_similarInternships :: "internship list"

text \<open>
  \<^verbatim>\<open>getInternshipDetails\<close>: the internship is looked up by id among the active ones with
  a deadline not before now (404 otherwise); an internship of a campaign that is not
  ACTIVE is answered with 400 and the message of \<open>Closed\<close>. The similar internships are
  the first five by postedAt, newest first. The handler runs for a student whose token
  says that the subscription is active; the caller's id is taken from the token.
\<close>

definition getInternshipDetails ::
  "env \<Rightarrow> db \<Rightarrow> ident \<Rightarrow> ident \<Rightarrow> internshipDetails response" where
  "getInternshipDetails env db uid iid =
    (case find (\<lambda>i. i_id i = iid \<and> i_isActive i \<and> now env \<le> i_deadline i) (internships db) of
       None \<Rightarrow> NotFound
     | Some internship \<Rightarrow>
         (case findCampaign db (i_campaignId internship) of
            None \<Rightarrow> InternalError
          | Some campaign \<Rightarrow>
              if c_status campaign \<noteq> ACTIVE then Closed
              else
                (let userApplications =
                       filter (\<lambda>a. a_internshipId a = iid \<and> a_userId a = uid) (applications db);
                     similarInternships =
                       take 5 (orderRows (tieOrder env) (Desc i_postedAt)
                         (filter (similarWhere db (now env) internship) (internships db)))
                 in Success
                      \<lparr>d_internship = internship, d_campaign = campaign,
                       d_applicationCount =
                         length (filter (\<lambda>a. a_internshipId a = iid) (applications db)),
                       d_userApplication =
                         (case userApplications of [] \<Rightarrow> None | a # _ \<Rightarrow> Some a),
                       d_hasApplied = (userApplications \<noteq> []),
                       d_canApply = (userApplications = [] \<and> now env < i_deadline internship),
                       d_similarInternships = similarInternships\<rparr>)))"

section \<open>The operations that write to the store\<close>

text \<open>
  Every handler of the repository that writes to the store, with the caller's user id
  (from the verified token), the path parameter and the request body. The other handlers
  (the listings, the detail views and the logins) only read.
\<close>

datatype operation =
    ApplyToInternship ident ident jsvalue
  | UpdateApplicationStatus ident ident jsvalue
  | UpdateApplication ident ident jsvalue
  | LaunchCampaign ident launchBody
  | EditCampaign ident ident editBody
  | StudentSignup studentSignupBody
  | CompanySignup companySignupBody

fun step :: "env \<Rightarrow> db \<Rightarrow> operation \<Rightarrow> db" where
  "step env db (ApplyToInternship uid iid coverLetter) =
     snd (applyToInternship env db uid iid coverLetter)"
| "step env db (UpdateApplicationStatus uid aid status) =
     snd (updateApplicationStatus env db uid aid status)"
| "step env db (UpdateApplication uid aid coverLetter) =
     snd (updateApplication env db uid aid coverLetter)"
| "step env db (LaunchCampaign uid body) = snd (launchCampaign env db uid body)"
| "step env db (EditCampaign uid cid body) = snd (editCampaign env db uid cid body)"
| "step env db (StudentSignup body) = snd (studentSignup env db body)"
| "step env db (CompanySignup body) = snd (companySignup env db body)"

section \<open>An example store\<close>

text \<open>
  A small store and environment on which the theorems below are instantiated: a student
  with a capped plan, a student with a plan whose cap is 0, a company with an active, a
  paused and an expired campaign, an accepted and a pending application.
\<close>

definition exampleEnv :: env where
  "exampleEnv =
    \<lparr>now = 1000, newId = ''n1'', newId2 = ''n2'', startOfMonth = (\<lambda>t. 900),
     parseFloat = (\<lambda>v. case v of JNum r \<Rightarrow> Some r | _ \<Rightarrow> None),
     parseInt = (\<lambda>v. case v of JNum r \<Rightarrow> Some \<lfloor>r\<rfloor> | _ \<Rightarrow> None),
     newDate = (\<lambda>v. case v of JNum r \<Rightarrow> Some \<lfloor>r\<rfloor> | _ \<Rightarrow> None),
     emailRegexTest = (\<lambda>v. True), urlRegexTest = (\<lambda>v. True),
     passwordLengthLt6 = (\<lambda>v. False),
     bcryptHash = (\<lambda>v. case v of JStr s \<Rightarrow> Some s | _ \<Rightarrow> None),
     equalsInsensitive = (=), jwtSecretSet = True,
     acceptsText = (\<lambda>s. True), tieOrder = (\<lambda>i. 0)\<rparr>"

definition exampleDb :: db where
  "exampleDb =
    \<lparr>users =
       [\<lparr>u_id = ''u1'', u_email = js ''ann@example.org'', u_password = js ''h1'',
         u_name = js ''Ann'', u_role = STUDENT, u_companyId = None\<rparr>,
        \<lparr>u_id = ''u2'', u_email = js ''hr@acme.example'', u_password = js ''h2'',
         u_name = js ''Bob'', u_role = COMPANY, u_companyId = Some ''co1''\<rparr>,
        \<lparr>u_id = ''u3'', u_email = js ''cy@example.org'', u_password = js ''h3'',
         u_name = js ''Cy'', u_role = STUDENT, u_companyId = None\<rparr>],
     companies =
       [\<lparr>co_id = ''co1'', co_name = js ''Acme'', co_website = None, co_logoUrl = None,
         co_description = None\<rparr>],
     campaigns =
       [\<lparr>c_id = ''c1'', c_title = js ''Summer'', c_description = None, c_budget = 5000,
         c_status = ACTIVE, c_startDate = 100, c_endDate = 9000, c_maxInternships = 10,
         c_createdAt = 100, c_updatedAt = 100, c_companyId = ''co1''\<rparr>,
        \<lparr>c_id = ''c2'', c_title = js ''Winter'', c_description = None, c_budget = 3000,
         c_status = PAUSED, c_startDate = 100, c_endDate = 9000, c_maxInternships = 5,
         c_createdAt = 100, c_updatedAt = 100, c_companyId = ''co1''\<rparr>,
        \<lparr>c_id = ''c3'', c_title = js ''Spring'', c_description = None, c_budget = 1000,
         c_status = EXPIRED, c_startDate = 10, c_endDate = 90, c_maxInternships = 2,
         c_createdAt = 10, c_updatedAt = 95, c_companyId = ''co1''\<rparr>],
     campaignPayments =
       [\<lparr>p_id = ''p1'', p_campaignId = ''c1'', p_amount = 5000, p_paymentMethod = js ''card'',
         p_transactionId = Some (js ''t1''), p_status = PayCOMPLETED, p_paidAt = None,
         p_createdAt = 100\<rparr>],
     internships =
       [\<lparr>i_id = ''i1'', i_title = js ''Backend'', i_description = js ''APIs'',
         i_location = js ''Pune'', i_type = REMOTE, i_stipend = Some 100,
         i_duration = js ''3m'', i_postedAt = 200, i_deadline = 2000, i_isActive = True,
         i_companyId = ''co1'', i_campaignId = ''c1''\<rparr>,
        \<lparr>i_id = ''i2'', i_title = js ''Frontend'', i_description = js ''UI'',
         i_location = js ''Pune'', i_type = HYBRID, i_stipend = None,
         i_duration = js ''2m'', i_postedAt = 300, i_deadline = 2000, i_isActive = True,
         i_companyId = ''co1'', i_campaignId = ''c2''\<rparr>,
        \<lparr>i_id = ''i3'', i_title = js ''Data'', i_description = js ''ETL'',
         i_location = js ''Delhi'', i_type = IN_OFFICE, i_stipend = Some 50,
         i_duration = js ''6m'', i_postedAt = 400, i_deadline = 3000, i_isActive = True,
         i_companyId = ''co1'', i_campaignId = ''c1''\<rparr>],
     applications =
       [\<lparr>a_id = ''a1'', a_coverLetter = Some (replicate 60 0x61), a_status = ACCEPTED,
         a_createdAt = 950, a_updatedAt = 960, a_internshipId = ''i1'', a_userId = ''u3''\<rparr>,
        \<lparr>a_id = ''a2'', a_coverLetter = Some (replicate 70 0x61), a_status = PENDING,
         a_createdAt = 800, a_updatedAt = 800, a_internshipId = ''i3'', a_userId = ''u1''\<rparr>],
     subscriptions =
       [\<lparr>s_id = ''s1'', s_userId = ''u1'', s_planId = ''pl1'', s_status = SubACTIVE,
         s_startedAt = 500, s_endsAt = 5000, s_createdAt = 500, s_updatedAt = 500\<rparr>,
        \<lparr>s_id = ''s3'', s_userId = ''u3'', s_planId = ''pl0'', s_status = SubACTIVE,
         s_startedAt = 500, s_endsAt = 5000, s_createdAt = 500, s_updatedAt = 500\<rparr>],
     plans =
       [\<lparr>pl_id = ''pl1'', pl_name = js ''Basic'', pl_price = 10,
         pl_maxApplicationsPerMonth = Some 5, pl_isActive = True\<rparr>,
        \<lparr>pl_id = ''pl0'', pl_name = js ''Browse'', pl_price = 0,
         pl_maxApplicationsPerMonth = Some 0, pl_isActive = True\<rparr>],
     internshipSkills = [(''i1'', ''sk1''), (''i3'', ''sk1''), (''i2'', ''sk2'')]\<rparr>"

section \<open>The cover letter\<close>

lemma length_trim_le: "length (trim s) \<le> length s"
proof -
  have "length (trim s) \<le> length (dropWhile isWhiteSpace s)"
    unfolding trim_def by (metis length_dropWhile_le length_rev)
  also have "\<dots> \<le> length s" by (rule length_dropWhile_le)
  finally show ?thesis .
qed

lemma trim_replicate: "\<not> isWhiteSpace c \<Longrightarrow> trim (replicate n c) = replicate n c"
  by (simp add: trim_def dropWhile_replicate)

lemma trim_Nil: "trim [] = []"
  by (simp add: trim_def)

lemma applyChecks_validation:
  "applyChecks env db uid iid (JStr s) = Inl ValidationError
     \<longleftrightarrow> length (trim s) < 50 \<or> 2000 < length s"
  by (auto simp: applyChecks_def trim_Nil split: option.splits)

lemma applyChecks_letter_independent:
  assumes "applyChecks env db uid iid (JStr s') = Inr s'"
    and "50 \<le> length (trim s)" and "length s \<le> 2000"
  shows "applyChecks env db uid iid (JStr s) = Inr s"
  using assms
  by (auto simp: applyChecks_def trim_Nil split: option.splits if_splits)

lemma applyCreate_not_validation:
  "fst (applyCreate env db uid iid s) \<noteq> ValidationError"
  by (simp add: applyCreate_def Let_def split: sum.splits)

lemma apply_validation_iff:
  "fst (applyToInternship env db uid iid (JStr s)) = ValidationError
     \<longleftrightarrow> length (trim s) < 50 \<or> 2000 < length s"
  using applyChecks_validation [of env db uid iid s] applyCreate_not_validation [of env db uid iid]
  by (auto simp: applyToInternship_def split: sum.splits)

lemma not_ws_a: "\<not> isWhiteSpace 0x61"
  by (simp add: isWhiteSpace_def)

lemma ws_space: "isWhiteSpace 0x20"
  by (simp add: isWhiteSpace_def)

lemma trim_padded: "trim (0x20 # replicate n 0x61) = replicate n 0x61"
  by (simp add: trim_def dropWhile_replicate ws_space not_ws_a dropWhile_append)

lemma example_checks:
  "50 \<le> n \<Longrightarrow> n \<le> 2000 \<Longrightarrow>
   applyChecks exampleEnv exampleDb ''u1'' ''i1'' (JStr (replicate n 0x61)) = Inr (replicate n 0x61)"
  by (auto simp add: applyChecks_def exampleEnv_def exampleDb_def trim_replicate not_ws_a
      findInternship_def findCampaign_def findApplication_def activeSubscription_def
      findUser_def findPlan_def applicationsThisMonth_def)

lemma apply_rejects_letter:
  "length (trim s) < 50 \<or> 2000 < length s \<Longrightarrow>
   applyToInternship env db uid iid (JStr s) = (ValidationError, db)"
  using applyChecks_validation [of env db uid iid s]
  by (simp add: applyToInternship_def)

text \<open>
  Claim C6 as stated fails: a space followed by 2000 letters has trimmed length 2000,
  inside [50, 2000], and is rejected, on a request where the letter without the space
  passes every check.
\<close>

theorem cover_letter_padding_counterexample:
  "length (trim (0x20 # replicate 2000 0x61)) = 2000
   \<and> applyToInternship exampleEnv exampleDb ''u1'' ''i1'' (JStr (0x20 # replicate 2000 0x61))
       = (ValidationError, exampleDb)
   \<and> applyChecks exampleEnv exampleDb ''u1'' ''i1'' (JStr (trim (0x20 # replicate 2000 0x61)))
       = Inr (replicate 2000 0x61)"
  by (simp add: trim_padded example_checks apply_rejects_letter)

text \<open>
  Claim C6, as amended. The apply operation rejects a string cover letter with
  ValidationError exactly when its trimmed length is below 50 or its length before
  trimming is above 2000, and then creates no application; a cover letter with trimmed
  length at least 50 and untrimmed length at most 2000 passes every check that some cover
  letter passes on the same request. A letter of 40 characters is rejected, a letter of
  50 characters none of which is stripped is accepted, a letter of 2001 characters is
  rejected.
\<close>

theorem cover_letter_accepted_iff:
  "(fst (applyToInternship env db uid iid (JStr s)) = ValidationError
      \<longleftrightarrow> length (trim s) < 50 \<or> 2000 < length s)
   \<and> (length (trim s) < 50 \<or> 2000 < length s \<longrightarrow>
        applyToInternship env db uid iid (JStr s) = (ValidationError, db))
   \<and> (50 \<le> length (trim s) \<and> length s \<le> 2000
        \<and> applyChecks env db uid iid (JStr s') = Inr s' \<longrightarrow>
        applyChecks env db uid iid (JStr s) = Inr s)
   \<and> (length s = 40 \<longrightarrow> applyToInternship env db uid iid (JStr s) = (ValidationError, db))
   \<and> (length s = 50 \<and> trim s = s \<and> applyChecks env db uid iid (JStr s') = Inr s' \<longrightarrow>
        applyChecks env db uid iid (JStr s) = Inr s)
   \<and> (length s = 2001 \<longrightarrow> applyToInternship env db uid iid (JStr s) = (ValidationError, db))"
proof (intro conjI impI)
  show "fst (applyToInternship env db uid iid (JStr s)) = ValidationError
      \<longleftrightarrow> length (trim s) < 50 \<or> 2000 < length s"
    by (rule apply_validation_iff)
next
  assume "length (trim s) < 50 \<or> 2000 < length s"
  then show "applyToInternship env db uid iid (JStr s) = (ValidationError, db)"
    by (rule apply_rejects_letter)
next
  assume "50 \<le> length (trim s) \<and> length s \<le> 2000
        \<and> applyChecks env db uid iid (JStr s') = Inr s'"
  then show "applyChecks env db uid iid (JStr s) = Inr s"
    using applyChecks_letter_independent by blast
next
  assume "length s = 40"
  with length_trim_le [of s] have "length (trim s) < 50" by simp
  then show "applyToInternship env db uid iid (JStr s) = (ValidationError, db)"
    by (simp add: apply_rejects_letter)
next
  assume "length s = 50 \<and> trim s = s \<and> applyChecks env db uid iid (JStr s') = Inr s'"
  then show "applyChecks env db uid iid (JStr s) = Inr s"
    using applyChecks_letter_independent [of env db uid iid s' s] by simp
next
  assume "length s = 2001"
  then show "applyToInternship env db uid iid (JStr s) = (ValidationError, db)"
    by (simp add: apply_rejects_letter)
qed

text \<open>The theorem on the example store, at 40, 50 and 2001 characters.\<close>

theorem cover_letter_accepted_iff_witness:
  "applyToInternship exampleEnv exampleDb ''u1'' ''i1'' (JStr (replicate 40 0x61))
     = (ValidationError, exampleDb)
   \<and> applyChecks exampleEnv exampleDb ''u1'' ''i1'' (JStr (replicate 50 0x61))
     = Inr (replicate 50 0x61)
   \<and> applyToInternship exampleEnv exampleDb ''u1'' ''i1'' (JStr (replicate 2001 0x61))
     = (ValidationError, exampleDb)"
  using cover_letter_accepted_iff [of exampleEnv exampleDb "''u1''" "''i1''" "replicate 40 0x61"]
    cover_letter_accepted_iff [of exampleEnv exampleDb "''u1''" "''i1''" "replicate 50 0x61"
      "replicate 60 0x61"]
    cover_letter_accepted_iff [of exampleEnv exampleDb "''u1''" "''i1''" "replicate 2001 0x61"]
    example_checks [of 60]
  by (simp add: trim_replicate not_ws_a)

section \<open>The order of the checks of the apply operation\<close>

lemma map_id_update:
  "map a_id (map (\<lambda>a. if a_id a = aid then f a else a) xs) = map a_id xs"
  if "\<And>a. a_id (f a) = a_id a"
  using that by (induction xs) auto

lemma updateApplicationStatus_ids:
  "map a_id (applications (snd (updateApplicationStatus env db uid aid status)))
     = map a_id (applications db)"
  by (auto simp: updateApplicationStatus_def updateApplicationRow_def map_id_update
      split: option.splits)

lemma updateApplication_ids:
  "map a_id (applications (snd (updateApplication env db uid aid coverLetter)))
     = map a_id (applications db)"
  by (auto simp: updateApplication_def updateApplicationRow_def map_id_update
      split: option.splits jsvalue.splits)

lemma launchTransaction_applications:
  "launchTransaction env db co body = Some (c, db') \<Longrightarrow> applications db' = applications db"
  by (auto simp: launchTransaction_def createCampaign_def createCampaignPayment_def
      split: option.splits sum.splits if_splits)

lemma launchCampaign_applications:
  "applications (snd (launchCampaign env db uid body)) = applications db"
  by (auto simp: launchCampaign_def dest: launchTransaction_applications split: option.splits)

lemma editCampaign_applications:
  "applications (snd (editCampaign env db uid cid body)) = applications db"
  by (auto simp: editCampaign_def split: option.splits)

lemma createUser_applications:
  "createUser db u = Inr db' \<Longrightarrow> applications db' = applications db"
  by (auto simp: createUser_def split: if_splits)

lemma studentSignup_applications:
  "applications (snd (studentSignup env db body)) = applications db"
  by (auto simp: studentSignup_def Let_def dest: createUser_applications
      split: option.splits sum.splits storeError.splits)

lemma signupTransaction_applications:
  "signupTransaction env db body e n h = Inr (u, db') \<Longrightarrow> applications db' = applications db"
  by (auto simp: signupTransaction_def createCompany_def Let_def dest!: createUser_applications
      split: option.splits sum.splits if_splits)

lemma companySignup_applications:
  "applications (snd (companySignup env db body)) = applications db"
  by (auto simp: companySignup_def dest: signupTransaction_applications
      split: option.splits sum.splits storeError.splits)

lemma only_apply_creates:
  "(\<And>u i c. op \<noteq> ApplyToInternship u i c) \<Longrightarrow>
   map a_id (applications (step env db op)) = map a_id (applications db)"
  by (cases op)
    (auto simp: updateApplicationStatus_ids updateApplication_ids launchCampaign_applications
      editCampaign_applications studentSignup_applications companySignup_applications)


lemma apply_not_found:
  assumes "50 \<le> length (trim s)" "length s \<le> 2000" "findInternship db iid = None"
  shows "applyToInternship env db uid iid (JStr s) = (NotFound, db)"
  using assms by (auto simp: applyToInternship_def applyChecks_def trim_def)

lemma apply_closed:
  assumes "50 \<le> length (trim s)" "length s \<le> 2000" "findInternship db iid = Some i"
    "\<not> i_isActive i"
  shows "applyToInternship env db uid iid (JStr s) = (Closed, db)"
  using assms by (auto simp: applyToInternship_def applyChecks_def trim_def)

lemma apply_campaign_inactive:
  assumes "50 \<le> length (trim s)" "length s \<le> 2000" "findInternship db iid = Some i"
    "i_isActive i" "findCampaign db (i_campaignId i) = Some c" "c_status c \<noteq> ACTIVE"
  shows "applyToInternship env db uid iid (JStr s) = (CampaignInactive, db)"
  using assms by (auto simp: applyToInternship_def applyChecks_def trim_def)

lemma apply_deadline_passed:
  assumes "50 \<le> length (trim s)" "length s \<le> 2000" "findInternship db iid = Some i"
    "i_isActive i" "findCampaign db (i_campaignId i) = Some c" "c_status c = ACTIVE"
    "i_deadline i < now env"
  shows "applyToInternship env db uid iid (JStr s) = (DeadlinePassed, db)"
  using assms by (auto simp: applyToInternship_def applyChecks_def trim_def)

lemma apply_duplicate:
  assumes "50 \<le> length (trim s)" "length s \<le> 2000" "findInternship db iid = Some i"
    "i_isActive i" "findCampaign db (i_campaignId i) = Some c" "c_status c = ACTIVE"
    "now env \<le> i_deadline i" "findApplication db iid uid \<noteq> None"
  shows "applyToInternship env db uid iid (JStr s) = (DuplicateApplication, db)"
  using assms by (auto simp: applyToInternship_def applyChecks_def trim_def)

lemma apply_subscription_required:
  assumes "50 \<le> length (trim s)" "length s \<le> 2000" "findInternship db iid = Some i"
    "i_isActive i" "findCampaign db (i_campaignId i) = Some c" "c_status c = ACTIVE"
    "now env \<le> i_deadline i" "findApplication db iid uid = None"
    "activeSubscription db (now env) uid = None"
  shows "applyToInternship env db uid iid (JStr s) = (SubscriptionRequired, db)"
  using assms by (auto simp: applyToInternship_def applyChecks_def trim_def)

lemma apply_quota_exceeded:
  assumes "50 \<le> length (trim s)" "length s \<le> 2000" "findInternship db iid = Some i"
    "i_isActive i" "findCampaign db (i_campaignId i) = Some c" "c_status c = ACTIVE"
    "now env \<le> i_deadline i" "findApplication db iid uid = None"
    "activeSubscription db (now env) uid = Some sub" "findPlan db (s_planId sub) = Some plan"
    "pl_maxApplicationsPerMonth plan = Some cap" "cap \<noteq> 0"
    "cap \<le> applicationsThisMonth env db uid"
  shows "applyToInternship env db uid iid (JStr s)
    = (QuotaExceeded (applicationsThisMonth env db uid) cap, db)"
  using assms by (auto simp: applyToInternship_def applyChecks_def trim_def)

lemma apply_checks_pass:
  assumes "50 \<le> length (trim s)" "length s \<le> 2000" "findInternship db iid = Some i"
    "i_isActive i" "findCampaign db (i_campaignId i) = Some c" "c_status c = ACTIVE"
    "now env \<le> i_deadline i" "findApplication db iid uid = None"
    "activeSubscription db (now env) uid = Some sub" "findPlan db (s_planId sub) = Some plan"
    "\<not> (\<exists>cap. pl_maxApplicationsPerMonth plan = Some cap \<and> cap \<noteq> 0
          \<and> cap \<le> applicationsThisMonth env db uid)"
  shows "applyChecks env db uid iid (JStr s) = Inr s"
  using assms by (auto simp: applyChecks_def trim_def split: option.splits)

lemma find_None_list_ex: "find P xs = None \<longleftrightarrow> \<not> list_ex P xs"
  by (auto simp: find_None_iff list_ex_iff)

lemma activeSubscription_user:
  "activeSubscription db t uid = Some sub \<Longrightarrow> findUser db uid \<noteq> None"
  by (auto simp: activeSubscription_def split: option.splits)

lemma applyCreate_success:
  assumes "findInternship db iid \<noteq> None" "findUser db uid \<noteq> None"
    "findApplication db iid uid = None"
    "\<not> list_ex (\<lambda>b. a_id b = newId env) (applications db)"
    "storesText env (trim s)"
  shows "applyCreate env db uid iid s =
    (Success \<lparr>a_id = newId env, a_coverLetter = Some (trim s), a_status = PENDING,
               a_createdAt = now env, a_updatedAt = now env,
               a_internshipId = iid, a_userId = uid\<rparr>,
     db\<lparr>applications := applications db @
        [\<lparr>a_id = newId env, a_coverLetter = Some (trim s), a_status = PENDING,
          a_createdAt = now env, a_updatedAt = now env,
          a_internshipId = iid, a_userId = uid\<rparr>]\<rparr>)"
  using assms
  by (auto simp: applyCreate_def createApplication_def Let_def findApplication_def
      find_None_list_ex)

lemma applyCreate_refused:
  "\<not> storesText env (trim s) \<Longrightarrow> applyCreate env db uid iid s = (InternalError, db)"
  by (simp add: applyCreate_def createApplication_def Let_def)

lemma apply_not_a_string:
  "truthy v \<Longrightarrow> \<forall>t. v \<noteq> JStr t \<Longrightarrow>
   applyToInternship env db uid iid v = (InternalError, db)"
  by (cases v) (auto simp: applyToInternship_def applyChecks_def)

lemma quota_not_reached:
  assumes "pl_maxApplicationsPerMonth plan = None
      \<or> (\<exists>cap. pl_maxApplicationsPerMonth plan = Some cap \<and> used < cap)"
  shows "\<not> (\<exists>cap. pl_maxApplicationsPerMonth plan = Some cap \<and> cap \<noteq> 0 \<and> cap \<le> (used::int))"
  using assms by auto

lemma apply_success:
  assumes "50 \<le> length (trim s)" "length s \<le> 2000" "findInternship db iid = Some i"
    "i_isActive i" "findCampaign db (i_campaignId i) = Some c" "c_status c = ACTIVE"
    "now env \<le> i_deadline i" "findApplication db iid uid = None"
    "activeSubscription db (now env) uid = Some sub" "findPlan db (s_planId sub) = Some plan"
    "pl_maxApplicationsPerMonth plan = None
      \<or> (\<exists>cap. pl_maxApplicationsPerMonth plan = Some cap
            \<and> applicationsThisMonth env db uid < cap)"
    "\<not> list_ex (\<lambda>b. a_id b = newId env) (applications db)"
  shows "storesText env (trim s) \<longrightarrow> applyToInternship env db uid iid (JStr s) =
    (Success \<lparr>a_id = newId env, a_coverLetter = Some (trim s), a_status = PENDING,
               a_createdAt = now env, a_updatedAt = now env,
               a_internshipId = iid, a_userId = uid\<rparr>,
     db\<lparr>applications := applications db @
        [\<lparr>a_id = newId env, a_coverLetter = Some (trim s), a_status = PENDING,
          a_createdAt = now env, a_updatedAt = now env,
          a_internshipId = iid, a_userId = uid\<rparr>]\<rparr>)"
    and "\<not> storesText env (trim s) \<longrightarrow>
      applyToInternship env db uid iid (JStr s) = (InternalError, db)"
proof -
  have checks: "applyChecks env db uid iid (JStr s) = Inr s"
    using assms(1-10) quota_not_reached [OF assms(11)] by (rule apply_checks_pass)
  have user: "findUser db uid \<noteq> None"
    using assms(9) by (rule activeSubscription_user)
  show "storesText env (trim s) \<longrightarrow> applyToInternship env db uid iid (JStr s) =
    (Success \<lparr>a_id = newId env, a_coverLetter = Some (trim s), a_status = PENDING,
               a_createdAt = now env, a_updatedAt = now env,
               a_internshipId = iid, a_userId = uid\<rparr>,
     db\<lparr>applications := applications db @
        [\<lparr>a_id = newId env, a_coverLetter = Some (trim s), a_status = PENDING,
          a_createdAt = now env, a_updatedAt = now env,
          a_internshipId = iid, a_userId = uid\<rparr>]\<rparr>)"
    using checks user assms(3,8,12) by (simp add: applyToInternship_def applyCreate_success)
  show "\<not> storesText env (trim s) \<longrightarrow>
      applyToInternship env db uid iid (JStr s) = (InternalError, db)"
    using checks by (simp add: applyToInternship_def applyCreate_refused)
qed

lemma trim_nul_letter:
  "trim (replicate 30 0x61 @ 0 # replicate 30 0x61) = replicate 30 0x61 @ 0 # replicate 30 0x61"
proof -
  have d: "dropWhile isWhiteSpace (replicate 30 0x61 @ ys) = replicate 30 0x61 @ ys" for ys
    by (simp add: dropWhile_append1 not_ws_a dropWhile_replicate)
  show ?thesis
    by (simp add: trim_def d)
qed

text \<open>
  Claim C1 as stated fails on requests that the operation answers with 500. A cover
  letter that is a number has no length to check: the first check throws, and the answer
  is InternalError, not ValidationError. A cover letter of 61 characters with U+0000 in
  the middle passes all eight checks, but the store does not hold the text: the creation
  throws, the answer is InternalError and no application is created.
\<close>

theorem apply_internal_error_counterexample:
  "applyToInternship exampleEnv exampleDb ''u1'' ''i1'' (JNum 5) = (InternalError, exampleDb)
   \<and> applyChecks exampleEnv exampleDb ''u1'' ''i1''
        (JStr (replicate 30 0x61 @ 0 # replicate 30 0x61))
     = Inr (replicate 30 0x61 @ 0 # replicate 30 0x61)
   \<and> applyToInternship exampleEnv exampleDb ''u1'' ''i1''
        (JStr (replicate 30 0x61 @ 0 # replicate 30 0x61))
     = (InternalError, exampleDb)"
proof -
  have checks: "applyChecks exampleEnv exampleDb ''u1'' ''i1''
        (JStr (replicate 30 0x61 @ 0 # replicate 30 0x61))
     = Inr (replicate 30 0x61 @ 0 # replicate 30 0x61)"
    using applyChecks_letter_independent [OF example_checks [of 60], of
        "replicate 30 0x61 @ 0 # replicate 30 0x61"]
    by (simp add: trim_nul_letter)
  have "\<not> storesText exampleEnv (trim (replicate 30 0x61 @ 0 # replicate 30 0x61))"
    by (simp add: trim_nul_letter storesText_def)
  then have "applyToInternship exampleEnv exampleDb ''u1'' ''i1''
        (JStr (replicate 30 0x61 @ 0 # replicate 30 0x61)) = (InternalError, exampleDb)"
    using checks by (simp add: applyToInternship_def applyCreate_refused)
  moreover have "applyToInternship exampleEnv exampleDb ''u1'' ''i1'' (JNum 5)
      = (InternalError, exampleDb)"
    by (simp add: apply_not_a_string)
  ultimately show ?thesis using checks by simp
qed

text \<open>
  Claim C1, as amended. The apply operation answers a request without cover letter with
  ValidationError and one whose cover letter is a value other than a string with
  InternalError. On a request with a string cover letter it answers with the first
  precondition that fails, in the order: cover-letter length (ValidationError),
  internship found (NotFound), internship active (Closed), campaign ACTIVE
  (CampaignInactive), deadline not passed (DeadlinePassed), no application of the
  student for the internship (DuplicateApplication), an active subscription
  (SubscriptionRequired), the monthly quota of a plan whose cap is not 0 (QuotaExceeded
  with usage and cap), and the store is left as it was. When all hold, with no cap or
  usage below the cap, and the generated id is unused, it appends exactly one
  application, with status PENDING, if the store holds the trimmed text, and answers
  InternalError and creates nothing if not. A cap of 0 is left out. No other operation
  that writes to the store changes which applications exist.
\<close>

theorem apply_preconditions_in_order:
  fixes env db uid iid s
  defines "result \<equiv> applyToInternship env db uid iid (JStr s)"
    and "used \<equiv> applicationsThisMonth env db uid"
    and "new \<equiv> \<lparr>a_id = newId env, a_coverLetter = Some (trim s), a_status = PENDING,
                   a_createdAt = now env, a_updatedAt = now env,
                   a_internshipId = iid, a_userId = uid\<rparr>"
  shows
  "(\<not> truthy v \<longrightarrow> applyToInternship env db uid iid v = (ValidationError, db))
   \<and> (truthy v \<and> (\<forall>t. v \<noteq> JStr t) \<longrightarrow>
        applyToInternship env db uid iid v = (InternalError, db))
   \<and> (length (trim s) < 50 \<or> 2000 < length s \<longrightarrow> result = (ValidationError, db))
   \<and> (50 \<le> length (trim s) \<and> length s \<le> 2000 \<longrightarrow>
       (findInternship db iid = None \<longrightarrow> result = (NotFound, db))
     \<and> (\<forall>i. findInternship db iid = Some i \<longrightarrow>
         (\<not> i_isActive i \<longrightarrow> result = (Closed, db))
       \<and> (i_isActive i \<longrightarrow> (\<forall>c. findCampaign db (i_campaignId i) = Some c \<longrightarrow>
           (c_status c \<noteq> ACTIVE \<longrightarrow> result = (CampaignInactive, db))
         \<and> (c_status c = ACTIVE \<longrightarrow>
             (i_deadline i < now env \<longrightarrow> result = (DeadlinePassed, db))
           \<and> (now env \<le> i_deadline i \<longrightarrow>
               (findApplication db iid uid \<noteq> None \<longrightarrow> result = (DuplicateApplication, db))
             \<and> (findApplication db iid uid = None \<longrightarrow>
                 (activeSubscription db (now env) uid = None \<longrightarrow>
                    result = (SubscriptionRequired, db))
               \<and> (\<forall>sub plan. activeSubscription db (now env) uid = Some sub
                      \<and> findPlan db (s_planId sub) = Some plan \<longrightarrow>
                   (\<forall>cap. pl_maxApplicationsPerMonth plan = Some cap \<and> cap \<noteq> 0
                      \<and> cap \<le> used \<longrightarrow> result = (QuotaExceeded used cap, db))
                 \<and> ((pl_maxApplicationsPerMonth plan = None
                        \<or> (\<exists>cap. pl_maxApplicationsPerMonth plan = Some cap \<and> used < cap))
                      \<and> \<not> list_ex (\<lambda>b. a_id b = newId env) (applications db) \<longrightarrow>
                      (storesText env (trim s) \<longrightarrow>
                         result = (Success new, db\<lparr>applications := applications db @ [new]\<rparr>)
                         \<and> a_status new = PENDING)
                      \<and> (\<not> storesText env (trim s) \<longrightarrow>
                         result = (InternalError, db)))))))))))
   \<and> (\<forall>op. (\<forall>u i c. op \<noteq> ApplyToInternship u i c) \<longrightarrow>
         map a_id (applications (step env db op)) = map a_id (applications db))"
proof -
  let ?ok = "50 \<le> length (trim s) \<and> length s \<le> 2000"
  have f1: "applyToInternship env db uid iid v = (ValidationError, db)" if "\<not> truthy v"
    using that by (simp add: applyToInternship_def applyChecks_def)
  have f2: "applyToInternship env db uid iid v = (InternalError, db)"
    if "truthy v \<and> (\<forall>t. v \<noteq> JStr t)"
    using that by (simp add: apply_not_a_string)
  have f3: "result = (ValidationError, db)" if "length (trim s) < 50 \<or> 2000 < length s"
    using that unfolding result_def by (rule apply_rejects_letter)
  have f4: "result = (NotFound, db)" if ?ok "findInternship db iid = None"
    using that unfolding result_def by (simp add: apply_not_found)
  have f5: "result = (Closed, db)" if ?ok "findInternship db iid = Some i" "\<not> i_isActive i"
    for i
    using that unfolding result_def by (simp add: apply_closed)
  have f6: "result = (CampaignInactive, db)"
    if ?ok "findInternship db iid = Some i" "i_isActive i"
      "findCampaign db (i_campaignId i) = Some c" "c_status c \<noteq> ACTIVE"
    for i c
    using that unfolding result_def by (simp add: apply_campaign_inactive)
  have f7: "result = (DeadlinePassed, db)"
    if ?ok "findInternship db iid = Some i" "i_isActive i"
      "findCampaign db (i_campaignId i) = Some c" "c_status c = ACTIVE"
      "i_deadline i < now env"
    for i c
    using that unfolding result_def by (simp add: apply_deadline_passed)
  have f8: "result = (DuplicateApplication, db)"
    if ?ok "findInternship db iid = Some i" "i_isActive i"
      "findCampaign db (i_campaignId i) = Some c" "c_status c = ACTIVE"
      "now env \<le> i_deadline i" "findApplication db iid uid \<noteq> None"
    for i c
    using that unfolding result_def by (simp add: apply_duplicate)
  have f9: "result = (SubscriptionRequired, db)"
    if ?ok "findInternship db iid = Some i" "i_isActive i"
      "findCampaign db (i_campaignId i) = Some c" "c_status c = ACTIVE"
      "now env \<le> i_deadline i" "findApplication db iid uid = None"
      "activeSubscription db (now env) uid = None"
    for i c
    using that unfolding result_def by (simp add: apply_subscription_required)
  have f10: "result = (QuotaExceeded used cap, db)"
    if ?ok "findInternship db iid = Some i" "i_isActive i"
      "findCampaign db (i_campaignId i) = Some c" "c_status c = ACTIVE"
      "now env \<le> i_deadline i" "findApplication db iid uid = None"
      "activeSubscription db (now env) uid = Some sub \<and> findPlan db (s_planId sub) = Some plan"
      "pl_maxApplicationsPerMonth plan = Some cap \<and> cap \<noteq> 0 \<and> cap \<le> used"
    for i c sub plan cap
    using that unfolding result_def used_def by (simp add: apply_quota_exceeded)
  have f11: "(storesText env (trim s) \<longrightarrow>
        result = (Success new, db\<lparr>applications := applications db @ [new]\<rparr>)
        \<and> a_status new = PENDING)
      \<and> (\<not> storesText env (trim s) \<longrightarrow> result = (InternalError, db))"
    if ?ok "findInternship db iid = Some i" "i_isActive i"
      "findCampaign db (i_campaignId i) = Some c" "c_status c = ACTIVE"
      "now env \<le> i_deadline i" "findApplication db iid uid = None"
      "activeSubscription db (now env) uid = Some sub \<and> findPlan db (s_planId sub) = Some plan"
      "(pl_maxApplicationsPerMonth plan = None
          \<or> (\<exists>cap. pl_maxApplicationsPerMonth plan = Some cap \<and> used < cap))
        \<and> \<not> list_ex (\<lambda>b. a_id b = newId env) (applications db)"
    for i c sub plan
  proof -
    from that have h: "50 \<le> length (trim s)" "length s \<le> 2000"
      "activeSubscription db (now env) uid = Some sub" "findPlan db (s_planId sub) = Some plan"
      "pl_maxApplicationsPerMonth plan = None
        \<or> (\<exists>cap. pl_maxApplicationsPerMonth plan = Some cap
              \<and> applicationsThisMonth env db uid < cap)"
      "\<not> list_ex (\<lambda>b. a_id b = newId env) (applications db)"
      unfolding used_def by blast+
    show ?thesis
      using apply_success [OF h(1,2) that(2-7) h(3-6)]
      unfolding result_def new_def by simp
  qed
  have f12: "map a_id (applications (step env db op)) = map a_id (applications db)"
    if "\<forall>u i c. op \<noteq> ApplyToInternship u i c" for op
    using that by (intro only_apply_creates) simp
  show ?thesis
    apply (intro conjI)
       apply (blast intro: f1)
      apply (blast intro: f2)
     apply (blast intro: f3)
    subgoal
      apply (intro impI conjI allI)
              apply (rule f4; assumption)
             apply (rule f5; assumption)
            apply (rule f6; assumption)
           apply (rule f7; assumption)
          apply (rule f8; assumption)
         apply (rule f9; assumption)
        apply (rule f10; assumption)
       apply (insert f11)
       apply blast+
      done
    apply (blast intro: f12)
    done
qed

text \<open>
  The theorem on the example store: a successful application, a duplicate, an internship
  of a paused campaign, and a caller without subscription.
\<close>

theorem apply_preconditions_in_order_witness:
  "applyToInternship exampleEnv exampleDb ''u1'' ''i1'' (JStr (replicate 60 0x61))
     = (Success \<lparr>a_id = ''n1'', a_coverLetter = Some (replicate 60 0x61), a_status = PENDING,
                 a_createdAt = 1000, a_updatedAt = 1000, a_internshipId = ''i1'',
                 a_userId = ''u1''\<rparr>,
        exampleDb\<lparr>applications := applications exampleDb @
          [\<lparr>a_id = ''n1'', a_coverLetter = Some (replicate 60 0x61), a_status = PENDING,
            a_createdAt = 1000, a_updatedAt = 1000, a_internshipId = ''i1'',
            a_userId = ''u1''\<rparr>]\<rparr>)
   \<and> applyToInternship exampleEnv exampleDb ''u3'' ''i1'' (JStr (replicate 60 0x61))
     = (DuplicateApplication, exampleDb)
   \<and> applyToInternship exampleEnv exampleDb ''u1'' ''i2'' (JStr (replicate 60 0x61))
     = (CampaignInactive, exampleDb)
   \<and> applyToInternship exampleEnv exampleDb ''u2'' ''i3'' (JStr (replicate 60 0x61))
     = (SubscriptionRequired, exampleDb)"
  using apply_preconditions_in_order [where env = exampleEnv and db = exampleDb
      and uid = "''u1''" and iid = "''i1''" and s = "replicate 60 0x61" and v = JNull]
    apply_preconditions_in_order [where env = exampleEnv and db = exampleDb
      and uid = "''u3''" and iid = "''i1''" and s = "replicate 60 0x61" and v = JNull]
    apply_preconditions_in_order [where env = exampleEnv and db = exampleDb
      and uid = "''u1''" and iid = "''i2''" and s = "replicate 60 0x61" and v = JNull]
    apply_preconditions_in_order [where env = exampleEnv and db = exampleDb
      and uid = "''u2''" and iid = "''i3''" and s = "replicate 60 0x61" and v = JNull]
  by (simp add: exampleDb_def exampleEnv_def findInternship_def findCampaign_def
      findApplication_def activeSubscription_def findUser_def findPlan_def
      applicationsThisMonth_def trim_replicate not_ws_a storesText_def)

section \<open>Accepted applications and the status update\<close>

lemma find_by_key:
  "distinct (map k xs) \<Longrightarrow> a \<in> set xs \<Longrightarrow>
   find (\<lambda>b. k b = k a \<and> Q b) xs = (if Q a then Some a else None)"
proof (induction xs)
  case Nil
  then show ?case by simp
next
  case (Cons x xs)
  show ?case
  proof (cases "x = a")
    case True
    with Cons.prems have "k a \<notin> k ` set xs" by simp
    then have "\<And>b. b \<in> set xs \<Longrightarrow> k b \<noteq> k a"
      by (metis imageI)
    then have "find (\<lambda>b. k b = k a \<and> Q b) xs = None"
      unfolding find_None_iff by blast
    with True show ?thesis by simp
  next
    case False
    with Cons.prems have "a \<in> set xs" and "k x \<noteq> k a" by auto
    with Cons show ?thesis by simp
  qed
qed

lemma find_map_preserved:
  "(\<And>x. P (g x) = P x) \<Longrightarrow> find P (map g xs) = map_option g (find P xs)"
  by (induction xs) auto

lemma parse_targets:
  "parseApplicationStatus (JStr (js ''PENDING'')) = Some PENDING"
  "parseApplicationStatus (JStr (js ''SHORTLISTED'')) = Some SHORTLISTED"
  "parseApplicationStatus (JStr (js ''ACCEPTED'')) = Some ACCEPTED"
  "parseApplicationStatus (JStr (js ''REJECTED'')) = Some REJECTED"
  by (simp_all add: parseApplicationStatus_def js_def)

lemma status_update_refused:
  assumes "distinct (map a_id (applications db))" "a \<in> set (applications db)"
    "a_status a = ACCEPTED" "parseApplicationStatus target = Some st" "st \<noteq> ACCEPTED"
  shows "snd (updateApplicationStatus env db uid (a_id a) target) = db"
  using assms(3-5)
  by (auto simp: updateApplicationStatus_def findCompanyApplication_def
      find_by_key [OF assms(1,2)] split: option.splits if_splits)

lemma status_update_invalid_transition:
  assumes "distinct (map a_id (applications db))" "a \<in> set (applications db)"
    "a_status a = ACCEPTED" "parseApplicationStatus target = Some st" "st \<noteq> ACCEPTED"
    "userCompany db uid = Some co" "findInternship db (a_internshipId a) = Some i"
    "i_companyId i = co_id co"
  shows "fst (updateApplicationStatus env db uid (a_id a) target) = InvalidTransition"
  using assms(3-8)
  by (auto simp: updateApplicationStatus_def findCompanyApplication_def
      find_by_key [OF assms(1,2)] split: option.splits if_splits)

lemma status_update_not_owner:
  assumes "distinct (map a_id (applications db))" "a \<in> set (applications db)"
    "parseApplicationStatus target = Some st"
    "\<not> (\<exists>co i. userCompany db uid = Some co \<and> findInternship db (a_internshipId a) = Some i
          \<and> i_companyId i = co_id co)"
  shows "updateApplicationStatus env db uid (a_id a) target = (NotFound, db)"
  using assms(3,4)
  by (auto simp: updateApplicationStatus_def findCompanyApplication_def
      find_by_key [OF assms(1,2)] split: option.splits if_splits)

lemma status_update_keeps_row:
  assumes "distinct (map a_id (applications db))" "a \<in> set (applications db)"
    "a_status a = ACCEPTED" "parseApplicationStatus target = Some st" "st \<noteq> ACCEPTED"
  shows "a \<in> set (applications (snd (updateApplicationStatus env db uid aid target)))"
proof (cases "aid = a_id a")
  case True
  then show ?thesis using status_update_refused [OF assms] assms(2) by simp
next
  case False
  then have "a \<in> set (map (\<lambda>b. if a_id b = aid then f b else b) (applications db))" for f
    using assms(2) by (auto simp: image_iff intro!: bexI [of _ a])
  then show ?thesis
    using assms(2)
    by (auto simp: updateApplicationStatus_def updateApplicationRow_def simp del: set_map
        split: option.splits)
qed

text \<open>
  Claim C2. For every application in the store whose status is ACCEPTED (application
  ids being unique), a status update that targets it with PENDING, SHORTLISTED or
  REJECTED leaves the whole store unchanged; it is answered with InvalidTransition when
  the calling company owns the application's internship and with NotFound otherwise.
  Whichever application such a call names, the accepted application stays in the store
  as it was.
\<close>

theorem accepted_status_is_immutable:
  assumes "distinct (map a_id (applications db))"
    and "a \<in> set (applications db)"
    and "a_status a = ACCEPTED"
    and "target \<in> {JStr (js ''PENDING''), JStr (js ''SHORTLISTED''), JStr (js ''REJECTED'')}"
  shows "snd (updateApplicationStatus env db uid (a_id a) target) = db
    \<and> ((\<exists>co i. userCompany db uid = Some co \<and> findInternship db (a_internshipId a) = Some i
           \<and> i_companyId i = co_id co) \<longrightarrow>
         fst (updateApplicationStatus env db uid (a_id a) target) = InvalidTransition)
    \<and> (\<not> (\<exists>co i. userCompany db uid = Some co \<and> findInternship db (a_internshipId a) = Some i
           \<and> i_companyId i = co_id co) \<longrightarrow>
         fst (updateApplicationStatus env db uid (a_id a) target) = NotFound)
    \<and> a \<in> set (applications (snd (updateApplicationStatus env db uid aid target)))"
proof -
  from assms(4) obtain st where st: "parseApplicationStatus target = Some st" "st \<noteq> ACCEPTED"
    using parse_targets by auto
  note facts = assms(1-3) st
  have "snd (updateApplicationStatus env db uid (a_id a) target) = db"
    using facts by (rule status_update_refused)
  moreover have "fst (updateApplicationStatus env db uid (a_id a) target) = InvalidTransition"
    if "\<exists>co i. userCompany db uid = Some co \<and> findInternship db (a_internshipId a) = Some i
           \<and> i_companyId i = co_id co"
    using that status_update_invalid_transition [OF facts] by blast
  moreover have "fst (updateApplicationStatus env db uid (a_id a) target) = NotFound"
    if "\<not> (\<exists>co i. userCompany db uid = Some co \<and> findInternship db (a_internshipId a) = Some i
           \<and> i_companyId i = co_id co)"
    using status_update_not_owner [OF assms(1,2) st(1) that] by simp
  moreover have "a \<in> set (applications (snd (updateApplicationStatus env db uid aid target)))"
    using facts by (rule status_update_keeps_row)
  ultimately show ?thesis by blast
qed

text \<open>The theorem on the accepted application of the example store, for its owner.\<close>

theorem accepted_status_is_immutable_witness:
  "updateApplicationStatus exampleEnv exampleDb ''u2'' ''a1'' (JStr (js ''REJECTED''))
     = (InvalidTransition, exampleDb)
   \<and> updateApplicationStatus exampleEnv exampleDb ''u2'' ''a1'' (JStr (js ''PENDING''))
     = (InvalidTransition, exampleDb)
   \<and> updateApplicationStatus exampleEnv exampleDb ''u2'' ''a1'' (JStr (js ''SHORTLISTED''))
     = (InvalidTransition, exampleDb)"
  using
    accepted_status_is_immutable [where db = exampleDb and env = exampleEnv and uid = "''u2''"
      and aid = "''a1''" and target = "JStr (js ''REJECTED'')"
      and a = "\<lparr>a_id = ''a1'', a_coverLetter = Some (replicate 60 0x61), a_status = ACCEPTED,
         a_createdAt = 950, a_updatedAt = 960, a_internshipId = ''i1'', a_userId = ''u3''\<rparr>"]
    accepted_status_is_immutable [where db = exampleDb and env = exampleEnv and uid = "''u2''"
      and aid = "''a1''" and target = "JStr (js ''PENDING'')"
      and a = "\<lparr>a_id = ''a1'', a_coverLetter = Some (replicate 60 0x61), a_status = ACCEPTED,
         a_createdAt = 950, a_updatedAt = 960, a_internshipId = ''i1'', a_userId = ''u3''\<rparr>"]
    accepted_status_is_immutable [where db = exampleDb and env = exampleEnv and uid = "''u2''"
      and aid = "''a1''" and target = "JStr (js ''SHORTLISTED'')"
      and a = "\<lparr>a_id = ''a1'', a_coverLetter = Some (replicate 60 0x61), a_status = ACCEPTED,
         a_createdAt = 950, a_updatedAt = 960, a_internshipId = ''i1'', a_userId = ''u3''\<rparr>"]
  by (simp add: exampleDb_def userCompany_def findUser_def findCompany_def findInternship_def
      prod_eq_iff)

lemma find_updated_row:
  assumes "find P xs = Some a" and "\<And>x. P (g x) = P x"
  shows "find P (map g xs) = Some (g a)"
  using assms by (simp add: find_map_preserved)

lemma findCompanyApplication_id:
  "findCompanyApplication db co aid = Some a \<Longrightarrow> a_id a = aid"
  by (auto simp: findCompanyApplication_def find_Some_iff)

text \<open>
  Claim C9. A status update with target ACCEPTED on an application of the calling
  company that is already ACCEPTED succeeds: the response and the stored row carry
  status ACCEPTED and the time of the request as updatedAt.
\<close>

theorem accepted_to_accepted_succeeds:
  assumes "userCompany db uid = Some co"
    and "findCompanyApplication db co aid = Some a"
    and "a_status a = ACCEPTED"
  shows "fst (updateApplicationStatus env db uid aid (JStr (js ''ACCEPTED'')))
      = Success (a\<lparr>a_status := ACCEPTED, a_updatedAt := now env\<rparr>)
    \<and> findCompanyApplication
        (snd (updateApplicationStatus env db uid aid (JStr (js ''ACCEPTED'')))) co aid
      = Some (a\<lparr>a_status := ACCEPTED, a_updatedAt := now env\<rparr>)"
proof -
  let ?g = "\<lambda>b. if a_id b = aid then b\<lparr>a_status := ACCEPTED, a_updatedAt := now env\<rparr> else b"
  let ?P = "\<lambda>a. a_id a = aid \<and>
        (case findInternship db (a_internshipId a) of
           None \<Rightarrow> False
         | Some i \<Rightarrow> i_companyId i = co_id co)"
  have run: "updateApplicationStatus env db uid aid (JStr (js ''ACCEPTED''))
    = (Success (a\<lparr>a_status := ACCEPTED, a_updatedAt := now env\<rparr>),
       db\<lparr>applications := map ?g (applications db)\<rparr>)"
    using assms by (simp add: updateApplicationStatus_def parse_targets updateApplicationRow_def)
  have "find ?P (map ?g (applications db)) = Some (?g a)"
    using assms(2) unfolding findCompanyApplication_def
    by (rule find_updated_row) simp
  moreover have "a_id a = aid"
    using assms(2) by (rule findCompanyApplication_id)
  ultimately have "findCompanyApplication (db\<lparr>applications := map ?g (applications db)\<rparr>) co aid
      = Some (a\<lparr>a_status := ACCEPTED, a_updatedAt := now env\<rparr>)"
    by (simp add: findCompanyApplication_def findInternship_def)
  with run show ?thesis by simp
qed

text \<open>The theorem on the accepted application of the example store: updatedAt moves from 960 to 1000.\<close>

theorem accepted_to_accepted_succeeds_witness:
  "updateApplicationStatus exampleEnv exampleDb ''u2'' ''a1'' (JStr (js ''ACCEPTED''))
     = (Success \<lparr>a_id = ''a1'', a_coverLetter = Some (replicate 60 0x61), a_status = ACCEPTED,
          a_createdAt = 950, a_updatedAt = 1000, a_internshipId = ''i1'', a_userId = ''u3''\<rparr>,
        exampleDb\<lparr>applications :=
          [\<lparr>a_id = ''a1'', a_coverLetter = Some (replicate 60 0x61), a_status = ACCEPTED,
            a_createdAt = 950, a_updatedAt = 1000, a_internshipId = ''i1'', a_userId = ''u3''\<rparr>,
           \<lparr>a_id = ''a2'', a_coverLetter = Some (replicate 70 0x61), a_status = PENDING,
            a_createdAt = 800, a_updatedAt = 800, a_internshipId = ''i3'', a_userId = ''u1''\<rparr>]\<rparr>)"
  using accepted_to_accepted_succeeds [where db = exampleDb and env = exampleEnv
      and uid = "''u2''" and aid = "''a1''"
      and co = "\<lparr>co_id = ''co1'', co_name = js ''Acme'', co_website = None, co_logoUrl = None,
         co_description = None\<rparr>"
      and a = "\<lparr>a_id = ''a1'', a_coverLetter = Some (replicate 60 0x61), a_status = ACCEPTED,
         a_createdAt = 950, a_updatedAt = 960, a_internshipId = ''i1'', a_userId = ''u3''\<rparr>"]
  by (simp add: exampleDb_def exampleEnv_def userCompany_def findUser_def findCompany_def
      findInternship_def findCompanyApplication_def updateApplicationStatus_def
      updateApplicationRow_def parse_targets)

section \<open>The cover-letter edit\<close>

lemma edit_validation_iff:
  "fst (updateApplication env db uid aid (JStr s)) = ValidationError \<longleftrightarrow> length (trim s) < 50"
  by (auto simp: updateApplication_def trim_def split: option.splits)

text \<open>
  Claim C10 as stated fails: on the pending application of the example store, an edit
  with a cover letter of 61 characters, U+0000 in the middle, has trimmed length 61 and
  does not succeed. The store does not hold the text, the update throws and the answer is
  InternalError; the store is unchanged.
\<close>

theorem edit_refused_text_counterexample:
  "length (trim (replicate 30 0x61 @ 0 # replicate 30 0x61)) = 61
   \<and> updateApplication exampleEnv exampleDb ''u1'' ''a2''
        (JStr (replicate 30 0x61 @ 0 # replicate 30 0x61))
     = (InternalError, exampleDb)"
  by (simp add: trim_nul_letter updateApplication_def storesText_def exampleDb_def)

text \<open>
  Claim C10, as amended. The student's edit rejects a string cover letter with
  ValidationError exactly when its trimmed length is below 50: there is no upper bound.
  On a PENDING application of the calling student, an edit with trimmed length at least
  50 succeeds and stores the trimmed text if the store holds that text; if not, it is
  answered with InternalError and the store is unchanged.
\<close>

theorem edit_has_no_upper_bound:
  "(fst (updateApplication env db uid aid (JStr s)) = ValidationError
      \<longleftrightarrow> length (trim s) < 50)
   \<and> (find (\<lambda>a. a_id a = aid \<and> a_userId a = uid) (applications db) = Some a
       \<and> a_status a = PENDING \<and> 50 \<le> length (trim s) \<and> storesText env (trim s) \<longrightarrow>
       fst (updateApplication env db uid aid (JStr s))
         = Success (a\<lparr>a_coverLetter := Some (trim s), a_updatedAt := now env\<rparr>)
       \<and> find (\<lambda>a. a_id a = aid \<and> a_userId a = uid)
           (applications (snd (updateApplication env db uid aid (JStr s))))
         = Some (a\<lparr>a_coverLetter := Some (trim s), a_updatedAt := now env\<rparr>))
   \<and> (find (\<lambda>a. a_id a = aid \<and> a_userId a = uid) (applications db) = Some a
       \<and> a_status a = PENDING \<and> 50 \<le> length (trim s) \<and> \<not> storesText env (trim s) \<longrightarrow>
       updateApplication env db uid aid (JStr s) = (InternalError, db))"
proof -
  have accepted: "fst (updateApplication env db uid aid (JStr s))
         = Success (a\<lparr>a_coverLetter := Some (trim s), a_updatedAt := now env\<rparr>)
       \<and> find (\<lambda>a. a_id a = aid \<and> a_userId a = uid)
           (applications (snd (updateApplication env db uid aid (JStr s))))
         = Some (a\<lparr>a_coverLetter := Some (trim s), a_updatedAt := now env\<rparr>)"
    if h: "find (\<lambda>a. a_id a = aid \<and> a_userId a = uid) (applications db) = Some a
       \<and> a_status a = PENDING \<and> 50 \<le> length (trim s) \<and> storesText env (trim s)"
  proof -
    let ?g = "\<lambda>b. if a_id b = aid
      then b\<lparr>a_coverLetter := Some (trim s), a_updatedAt := now env\<rparr> else b"
    from h have "s \<noteq> []" by (auto simp: trim_def)
    with h have run: "updateApplication env db uid aid (JStr s)
      = (Success (a\<lparr>a_coverLetter := Some (trim s), a_updatedAt := now env\<rparr>),
         db\<lparr>applications := map ?g (applications db)\<rparr>)"
      by (simp add: updateApplication_def updateApplicationRow_def)
    from h have "a_id a = aid" by (auto simp: find_Some_iff)
    moreover have "find (\<lambda>a. a_id a = aid \<and> a_userId a = uid) (map ?g (applications db))
        = Some (?g a)"
      using h by (intro find_updated_row) simp_all
    ultimately have "find (\<lambda>a. a_id a = aid \<and> a_userId a = uid) (map ?g (applications db))
        = Some (a\<lparr>a_coverLetter := Some (trim s), a_updatedAt := now env\<rparr>)"
      by simp
    with run show ?thesis by simp
  qed
  have refused: "updateApplication env db uid aid (JStr s) = (InternalError, db)"
    if h: "find (\<lambda>a. a_id a = aid \<and> a_userId a = uid) (applications db) = Some a
       \<and> a_status a = PENDING \<and> 50 \<le> length (trim s) \<and> \<not> storesText env (trim s)"
  proof -
    from h have "s \<noteq> []" by (auto simp: trim_def)
    with h show ?thesis by (simp add: updateApplication_def)
  qed
  from edit_validation_iff [of env db uid aid s] accepted refused show ?thesis
    by blast
qed

text \<open>The theorem on the pending application of the example store, with 2500 characters.\<close>

theorem edit_has_no_upper_bound_witness:
  "length (trim (replicate 2500 0x61)) = 2500
   \<and> fst (updateApplication exampleEnv exampleDb ''u1'' ''a2'' (JStr (replicate 2500 0x61)))
     = Success \<lparr>a_id = ''a2'', a_coverLetter = Some (replicate 2500 0x61), a_status = PENDING,
         a_createdAt = 800, a_updatedAt = 1000, a_internshipId = ''i3'', a_userId = ''u1''\<rparr>
   \<and> find (\<lambda>a. a_id a = ''a2'' \<and> a_userId a = ''u1'')
        (applications (snd (updateApplication exampleEnv exampleDb ''u1'' ''a2''
           (JStr (replicate 2500 0x61)))))
     = Some \<lparr>a_id = ''a2'', a_coverLetter = Some (replicate 2500 0x61), a_status = PENDING,
         a_createdAt = 800, a_updatedAt = 1000, a_internshipId = ''i3'', a_userId = ''u1''\<rparr>"
  using edit_has_no_upper_bound [where db = exampleDb and env = exampleEnv
      and uid = "''u1''" and aid = "''a2''" and s = "replicate 2500 0x61"
      and a = "\<lparr>a_id = ''a2'', a_coverLetter = Some (replicate 70 0x61), a_status = PENDING,
         a_createdAt = 800, a_updatedAt = 800, a_internshipId = ''i3'', a_userId = ''u1''\<rparr>"]
  by (simp add: exampleDb_def exampleEnv_def trim_replicate not_ws_a storesText_def)

section \<open>Visibility in the student-facing listing\<close>

lemma set_orderRows: "set (orderRows tie ord rows) = set rows"
  by (cases ord) simp_all

lemma set_paginate: "set (paginate skip tk rows) \<subseteq> set rows"
proof (cases "0 \<le> tk")
  case True
  then show ?thesis
    using set_take_subset [of "nat tk" "drop skip rows"] set_drop_subset [of skip rows]
    by (auto simp: paginate_def)
next
  case False
  then show ?thesis
    using set_take_subset [of "nat (- tk)" "drop skip (rev rows)"]
      set_drop_subset [of skip "rev rows"]
    by (auto simp: paginate_def)
qed

lemma whereClause_base:
  "whereClause db t [] i \<longleftrightarrow>
     i_isActive i \<and> t \<le> i_deadline i
     \<and> (\<exists>c. findCampaign db (i_campaignId i) = Some c \<and> c_status c = ACTIVE)"
  by (auto simp: whereClause_def split: option.splits)

lemma whereClause_implies_base:
  "whereClause db t filters i \<Longrightarrow> whereClause db t [] i"
  by (simp add: whereClause_def)

lemma getInternships_rows:
  assumes "getInternships env db q = Success (rows, cnt)" and "i \<in> set rows"
  shows "i \<in> set (internships db) \<and> whereClause db (now env) (q_filters q) i"
proof -
  let ?m = "filter (whereClause db (now env) (q_filters q)) (internships db)"
  have "i \<in> set ?m"
    using assms
    by (auto simp: getInternships_def Let_def set_orderRows
        split: option.splits if_splits dest!: subsetD [OF set_paginate])
  then show ?thesis by simp
qed

lemma nth_on_page:
  assumes "k < length xs" and "0 < n"
  shows "xs ! k \<in> set (take n (drop ((k div n) * n) xs))"
proof -
  let ?s = "(k div n) * n" and ?j = "k mod n"
  have k: "?s + ?j = k" by simp
  have s: "?s \<le> length xs" using assms(1) k by linarith
  have j: "?j < n" using assms(2) by simp
  have jl: "?j < length (drop ?s xs)" using assms(1) k by (simp add: less_diff_conv) 
  have "take n (drop ?s xs) ! ?j = xs ! k"
    using j s k by simp
  moreover have "?j < length (take n (drop ?s xs))"
    using j jl by simp
  ultimately show ?thesis by (metis nth_mem)
qed

lemma matching_on_some_page:
  fixes q :: "('k::linorder) listQuery"
  assumes "q_orderBy q = Some ord" and "q_limit q = Some l" and "0 < l"
    and "i \<in> set (internships db)" and "whereClause db (now env) (q_filters q) i"
  shows "\<exists>p rows cnt. getInternships env db (q\<lparr>q_page := Some p\<rparr>) = Success (rows, cnt)
      \<and> i \<in> set rows"
proof -
  let ?m = "filter (whereClause db (now env) (q_filters q)) (internships db)"
  let ?xs = "orderRows (tieOrder env) ord ?m"
  from assms(4,5) have "i \<in> set ?xs" by (simp add: set_orderRows)
  then obtain k where k: "k < length ?xs" "?xs ! k = i"
    by (auto simp: in_set_conv_nth)
  let ?n = "nat l"
  let ?p = "int (k div ?n) + 1"
  have n: "0 < ?n" using assms(3) by simp
  have l: "l = int ?n" using assms(3) by simp
  have skip: "nat (int (k div ?n) * l) = (k div ?n) * ?n"
    by (subst l) (simp only: nat_int flip: of_nat_mult)
  have nonneg: "\<not> int (k div ?n) * l < 0"
    using assms(3) by (simp add: mult_nonneg_nonneg not_less)
  have "getInternships env db (q\<lparr>q_page := Some ?p\<rparr>)
      = Success (take ?n (drop ((k div ?n) * ?n) ?xs), length ?m)"
    using assms(1-3) nonneg by (simp add: getInternships_def Let_def paginate_def skip)
  moreover have "i \<in> set (take ?n (drop ((k div ?n) * ?n) ?xs))"
    using nth_on_page [OF k(1) n] k(2) by simp
  ultimately show ?thesis by blast
qed

text \<open>
  The listing endpoint carries the campaign condition. In the listing without optional
  conditions (any ordering, any positive page size), an internship appears on some page
  if and only if it is in the store, is active, has a deadline not before the current
  time, and its campaign's status is ACTIVE. Whatever the query, every row of a returned
  page satisfies these conditions; an internship whose campaign is PAUSED or COMPLETED is
  on no page, whatever its own isActive flag.
\<close>

theorem listing_visibility:
  fixes q :: "('k::linorder) listQuery"
  shows
  "(q_filters q = [] \<and> q_orderBy q \<noteq> None \<and> (\<exists>l. q_limit q = Some l \<and> 0 < l) \<longrightarrow>
     ((\<exists>p rows cnt. getInternships env db (q\<lparr>q_page := Some p\<rparr>) = Success (rows, cnt)
          \<and> i \<in> set rows)
      \<longleftrightarrow> i \<in> set (internships db) \<and> i_isActive i \<and> now env \<le> i_deadline i
          \<and> (\<exists>c. findCampaign db (i_campaignId i) = Some c \<and> c_status c = ACTIVE)))
   \<and> (getInternships env db q = Success (rows, cnt) \<and> i \<in> set rows \<longrightarrow>
        i \<in> set (internships db) \<and> i_isActive i \<and> now env \<le> i_deadline i
        \<and> (\<exists>c. findCampaign db (i_campaignId i) = Some c \<and> c_status c = ACTIVE))
   \<and> (getInternships env db q = Success (rows, cnt)
        \<and> findCampaign db (i_campaignId i) = Some c \<and> c_status c \<in> {PAUSED, COMPLETED} \<longrightarrow>
        i \<notin> set rows)"
proof -
  let ?base = "i \<in> set (internships db) \<and> i_isActive i \<and> now env \<le> i_deadline i
          \<and> (\<exists>c. findCampaign db (i_campaignId i) = Some c \<and> c_status c = ACTIVE)"
  have iff: "(\<exists>p rows cnt. getInternships env db (q\<lparr>q_page := Some p\<rparr>) = Success (rows, cnt)
          \<and> i \<in> set rows) \<longleftrightarrow> ?base"
    if h: "q_filters q = [] \<and> q_orderBy q \<noteq> None \<and> (\<exists>l. q_limit q = Some l \<and> 0 < l)"
  proof
    assume "\<exists>p rows cnt. getInternships env db (q\<lparr>q_page := Some p\<rparr>) = Success (rows, cnt)
          \<and> i \<in> set rows"
    then obtain p rows cnt where
      "getInternships env db (q\<lparr>q_page := Some p\<rparr>) = Success (rows, cnt)" "i \<in> set rows"
      by blast
    then have "i \<in> set (internships db)
        \<and> whereClause db (now env) (q_filters (q\<lparr>q_page := Some p\<rparr>)) i"
      by (rule getInternships_rows)
    with h show ?base
      by (simp add: whereClause_base)
  next
    from h obtain ord l where q: "q_orderBy q = Some ord" "q_limit q = Some l" "0 < l"
      by auto
    assume ?base
    with h have "i \<in> set (internships db)" "whereClause db (now env) (q_filters q) i"
      by (simp_all add: whereClause_base)
    with q show "\<exists>p rows cnt. getInternships env db (q\<lparr>q_page := Some p\<rparr>) = Success (rows, cnt)
          \<and> i \<in> set rows"
      by (rule matching_on_some_page)
  qed
  have only: ?base if "getInternships env db q = Success (rows, cnt) \<and> i \<in> set rows"
  proof -
    from that have "i \<in> set (internships db) \<and> whereClause db (now env) (q_filters q) i"
      using getInternships_rows by blast
    then show ?thesis
      using whereClause_implies_base [of db "now env" "q_filters q" i]
      by (simp add: whereClause_base)
  qed
  have hidden: "i \<notin> set rows"
    if h: "getInternships env db q = Success (rows, cnt)
        \<and> findCampaign db (i_campaignId i) = Some c \<and> c_status c \<in> {PAUSED, COMPLETED}"
  proof
    assume "i \<in> set rows"
    with h have "whereClause db (now env) (q_filters q) i"
      using getInternships_rows by blast
    with h show False by (auto simp: whereClause_def)
  qed
  from iff only hidden show ?thesis by blast
qed

text \<open>
  The theorem on the example store: the two internships of the active campaign are
  listed, the active internship of the paused campaign is not.
\<close>

theorem listing_visibility_witness:
  "getInternships exampleEnv exampleDb
     \<lparr>q_filters = [], q_orderBy = Some (Desc i_postedAt), q_page = Some 1, q_limit = Some 20\<rparr>
   = Success
      ([\<lparr>i_id = ''i3'', i_title = js ''Data'', i_description = js ''ETL'',
         i_location = js ''Delhi'', i_type = IN_OFFICE, i_stipend = Some 50,
         i_duration = js ''6m'', i_postedAt = 400, i_deadline = 3000, i_isActive = True,
         i_companyId = ''co1'', i_campaignId = ''c1''\<rparr>,
        \<lparr>i_id = ''i1'', i_title = js ''Backend'', i_description = js ''APIs'',
         i_location = js ''Pune'', i_type = REMOTE, i_stipend = Some 100,
         i_duration = js ''3m'', i_postedAt = 200, i_deadline = 2000, i_isActive = True,
         i_companyId = ''co1'', i_campaignId = ''c1''\<rparr>], 2)
   \<and> \<lparr>i_id = ''i2'', i_title = js ''Frontend'', i_description = js ''UI'',
         i_location = js ''Pune'', i_type = HYBRID, i_stipend = None,
         i_duration = js ''2m'', i_postedAt = 300, i_deadline = 2000, i_isActive = True,
         i_companyId = ''co1'', i_campaignId = ''c2''\<rparr> \<in> set (internships exampleDb)"
  using listing_visibility [where env = exampleEnv and db = exampleDb
      and q = "\<lparr>q_filters = [], q_orderBy = Some (Desc i_postedAt), q_page = Some 1,
                q_limit = Some 20\<rparr>"
      and i = "\<lparr>i_id = ''i2'', i_title = js ''Frontend'', i_description = js ''UI'',
         i_location = js ''Pune'', i_type = HYBRID, i_stipend = None,
         i_duration = js ''2m'', i_postedAt = 300, i_deadline = 2000, i_isActive = True,
         i_companyId = ''co1'', i_campaignId = ''c2''\<rparr>"
      and c = "\<lparr>c_id = ''c2'', c_title = js ''Winter'', c_description = None, c_budget = 3000,
         c_status = PAUSED, c_startDate = 100, c_endDate = 9000, c_maxInternships = 5,
         c_createdAt = 100, c_updatedAt = 100, c_companyId = ''co1''\<rparr>"
      and cnt = 2
      and rows = "[\<lparr>i_id = ''i3'', i_title = js ''Data'', i_description = js ''ETL'',
         i_location = js ''Delhi'', i_type = IN_OFFICE, i_stipend = Some 50,
         i_duration = js ''6m'', i_postedAt = 400, i_deadline = 3000, i_isActive = True,
         i_companyId = ''co1'', i_campaignId = ''c1''\<rparr>,
        \<lparr>i_id = ''i1'', i_title = js ''Backend'', i_description = js ''APIs'',
         i_location = js ''Pune'', i_type = REMOTE, i_stipend = Some 100,
         i_duration = js ''3m'', i_postedAt = 200, i_deadline = 2000, i_isActive = True,
         i_companyId = ''co1'', i_campaignId = ''c1''\<rparr>]"]
  by (simp add: getInternships_def exampleDb_def exampleEnv_def whereClause_def
      findCampaign_def paginate_def Let_def)

text \<open>
  Claim C3 on the detail view. The student u1, who has an active subscription, opens the
  internship i1 of the example store. The internship i2 of the same company is active,
  its deadline has not passed, and its campaign is PAUSED; the listing endpoint does not
  show it, and the detail view lists it among the similar internships, whose where clause
  has no condition on the campaign.
\<close>

theorem similar_internships_show_paused_campaign:
  "map_option c_status (findCampaign exampleDb ''c2'') = Some PAUSED
   \<and> getInternships exampleEnv exampleDb
       \<lparr>q_filters = [], q_orderBy = Some (Desc i_postedAt), q_page = Some 1, q_limit = Some 20\<rparr>
     = Success
        ([\<lparr>i_id = ''i3'', i_title = js ''Data'', i_description = js ''ETL'',
           i_location = js ''Delhi'', i_type = IN_OFFICE, i_stipend = Some 50,
           i_duration = js ''6m'', i_postedAt = 400, i_deadline = 3000, i_isActive = True,
           i_companyId = ''co1'', i_campaignId = ''c1''\<rparr>,
          \<lparr>i_id = ''i1'', i_title = js ''Backend'', i_description = js ''APIs'',
           i_location = js ''Pune'', i_type = REMOTE, i_stipend = Some 100,
           i_duration = js ''3m'', i_postedAt = 200, i_deadline = 2000, i_isActive = True,
           i_companyId = ''co1'', i_campaignId = ''c1''\<rparr>], 2)
   \<and> getInternshipDetails exampleEnv exampleDb ''u1'' ''i1''
     = Success
        \<lparr>d_internship =
           \<lparr>i_id = ''i1'', i_title = js ''Backend'', i_description = js ''APIs'',
            i_location = js ''Pune'', i_type = REMOTE, i_stipend = Some 100,
            i_duration = js ''3m'', i_postedAt = 200, i_deadline = 2000, i_isActive = True,
            i_companyId = ''co1'', i_campaignId = ''c1''\<rparr>,
         d_campaign =
           \<lparr>c_id = ''c1'', c_title = js ''Summer'', c_description = None, c_budget = 5000,
            c_status = ACTIVE, c_startDate = 100, c_endDate = 9000, c_maxInternships = 10,
            c_createdAt = 100, c_updatedAt = 100, c_companyId = ''co1''\<rparr>,
         d_applicationCount = 1, d_userApplication = None, d_hasApplied = False,
         d_canApply = True,
         d_similarInternships =
           [\<lparr>i_id = ''i3'', i_title = js ''Data'', i_description = js ''ETL'',
             i_location = js ''Delhi'', i_type = IN_OFFICE, i_stipend = Some 50,
             i_duration = js ''6m'', i_postedAt = 400, i_deadline = 3000, i_isActive = True,
             i_companyId = ''co1'', i_campaignId = ''c1''\<rparr>,
            \<lparr>i_id = ''i2'', i_title = js ''Frontend'', i_description = js ''UI'',
             i_location = js ''Pune'', i_type = HYBRID, i_stipend = None,
             i_duration = js ''2m'', i_postedAt = 300, i_deadline = 2000, i_isActive = True,
             i_companyId = ''co1'', i_campaignId = ''c2''\<rparr>]\<rparr>"
  by (simp add: getInternshipDetails_def getInternships_def similarWhere_def sharesSkill_def
      whereClause_def paginate_def exampleDb_def exampleEnv_def findCampaign_def Let_def)

section \<open>Atomicity of the campaign launch\<close>

lemma campaignData_status:
  "campaignData env co body = Some c \<Longrightarrow> c_status c = ACTIVE \<and> c_id c = newId env
     \<and> c_companyId c = co_id co"
  by (auto simp: campaignData_def split: option.splits if_splits)

lemma paymentData_status:
  "paymentData env c body = Some p \<Longrightarrow>
   p_campaignId p = c_id c
   \<and> p_status p = (if truthy (l_transactionId body) then PayCOMPLETED else PayPENDING)"
  by (auto simp: paymentData_def split: option.splits)

lemma launchTransaction_Some:
  assumes "launchTransaction env db co body = Some (c, db')"
  shows "\<exists>p. db' = db\<lparr>campaigns := campaigns db @ [c],
                        campaignPayments := campaignPayments db @ [p]\<rparr>
     \<and> c_status c = ACTIVE \<and> c_companyId c = co_id co \<and> p_campaignId p = c_id c
     \<and> p_status p = (if truthy (l_transactionId body) then PayCOMPLETED else PayPENDING)
     \<and> \<not> list_ex (\<lambda>d. c_id d = c_id c) (campaigns db)
     \<and> \<not> list_ex (\<lambda>q. p_campaignId q = c_id c) (campaignPayments db)"
  using assms
  by (auto simp: launchTransaction_def createCampaign_def createCampaignPayment_def
      split: option.splits sum.splits if_splits
      dest!: campaignData_status paymentData_status)

lemma launchCampaign_cases:
  "(\<exists>r. launchCampaign env db uid body = (r, db) \<and> (\<forall>c. r \<noteq> Success c))
   \<or> (\<exists>c p. launchCampaign env db uid body
         = (Success c, db\<lparr>campaigns := campaigns db @ [c],
                           campaignPayments := campaignPayments db @ [p]\<rparr>)
        \<and> c_status c = ACTIVE \<and> p_campaignId p = c_id c
        \<and> p_status p = (if truthy (l_transactionId body) then PayCOMPLETED else PayPENDING)
        \<and> \<not> list_ex (\<lambda>d. c_id d = c_id c) (campaigns db)
        \<and> \<not> list_ex (\<lambda>q. p_campaignId q = c_id c) (campaignPayments db))"
proof (cases "\<exists>co c db'. userCompany db uid = Some co
    \<and> launchTransaction env db co body = Some (c, db')
    \<and> truthy (l_title body) \<and> truthy (l_budget body) \<and> truthy (l_endDate body)
    \<and> truthy (l_maxInternships body) \<and> truthy (l_paymentMethod body)")
  case True
  then obtain co c db' where h: "userCompany db uid = Some co"
    "launchTransaction env db co body = Some (c, db')"
    "truthy (l_title body)" "truthy (l_budget body)" "truthy (l_endDate body)"
    "truthy (l_maxInternships body)" "truthy (l_paymentMethod body)"
    by blast
  from launchTransaction_Some [OF h(2)] obtain p where
    p: "db' = db\<lparr>campaigns := campaigns db @ [c],
                        campaignPayments := campaignPayments db @ [p]\<rparr>"
     "c_status c = ACTIVE" "p_campaignId p = c_id c"
     "p_status p = (if truthy (l_transactionId body) then PayCOMPLETED else PayPENDING)"
     "\<not> list_ex (\<lambda>d. c_id d = c_id c) (campaigns db)"
     "\<not> list_ex (\<lambda>q. p_campaignId q = c_id c) (campaignPayments db)"
    by blast
  have "launchCampaign env db uid body = (Success c, db')"
    using h by (simp add: launchCampaign_def)
  with p show ?thesis by blast
next
  case False
  then have "\<exists>r. launchCampaign env db uid body = (r, db) \<and> (\<forall>c. r \<noteq> Success c)"
    by (auto simp: launchCampaign_def split: option.splits)
  then show ?thesis by blast
qed

lemma userCompany_found:
  "userCompany db uid = Some co \<Longrightarrow> findCompany db (co_id co) = Some co"
  by (auto simp: userCompany_def findCompany_def find_Some_iff split: option.splits)

lemma find_appended:
  "\<not> list_ex P xs \<Longrightarrow> P y \<Longrightarrow> find P (xs @ [y]) = Some y"
  by (induction xs) auto

lemma launch_creates:
  assumes "l_title body = JStr t" "t \<noteq> []" "storesText env t"
    and "asOptText env (l_description body) = Some d"
    and "truthy (l_budget body)" "parseFloat env (l_budget body) = Some b"
    and "truthy (l_endDate body)" "newDate env (l_endDate body) = Some e"
    and "truthy (l_maxInternships body)" "parseInt env (l_maxInternships body) = Some m"
      "isInt32 m"
    and "l_paymentMethod body = JStr pm" "pm \<noteq> []" "storesText env pm"
    and "asOptText env (l_transactionId body) = Some tid"
    and "userCompany db uid = Some co"
    and "\<not> list_ex (\<lambda>d. c_id d = newId env) (campaigns db)"
    and "\<not> list_ex (\<lambda>q. p_id q = newId2 env) (campaignPayments db)"
    and "\<not> list_ex (\<lambda>q. p_campaignId q = newId env) (campaignPayments db)"
  shows "launchCampaign env db uid body =
    (Success \<lparr>c_id = newId env, c_title = t, c_description = d, c_budget = b,
               c_status = ACTIVE, c_startDate = now env, c_endDate = e,
               c_maxInternships = m, c_createdAt = now env, c_updatedAt = now env,
               c_companyId = co_id co\<rparr>,
     db\<lparr>campaigns := campaigns db @
          [\<lparr>c_id = newId env, c_title = t, c_description = d, c_budget = b,
            c_status = ACTIVE, c_startDate = now env, c_endDate = e,
            c_maxInternships = m, c_createdAt = now env, c_updatedAt = now env,
            c_companyId = co_id co\<rparr>],
        campaignPayments := campaignPayments db @
          [\<lparr>p_id = newId2 env, p_campaignId = newId env, p_amount = b,
            p_paymentMethod = pm, p_transactionId = tid,
            p_status = (if truthy (l_transactionId body) then PayCOMPLETED else PayPENDING),
            p_paidAt = None, p_createdAt = now env\<rparr>]\<rparr>)"
proof -
  let ?c = "\<lparr>c_id = newId env, c_title = t, c_description = d, c_budget = b,
               c_status = ACTIVE, c_startDate = now env, c_endDate = e,
               c_maxInternships = m, c_createdAt = now env, c_updatedAt = now env,
               c_companyId = co_id co\<rparr>"
  let ?p = "\<lparr>p_id = newId2 env, p_campaignId = newId env, p_amount = b,
            p_paymentMethod = pm, p_transactionId = tid,
            p_status = (if truthy (l_transactionId body) then PayCOMPLETED else PayPENDING),
            p_paidAt = None, p_createdAt = now env\<rparr>"
  have cd: "campaignData env co body = Some ?c"
    using assms by (simp add: campaignData_def asText_def)
  have cc: "createCampaign db ?c = Inr (db\<lparr>campaigns := campaigns db @ [?c]\<rparr>)"
    using assms(17) userCompany_found [OF assms(16)] by (simp add: createCampaign_def)
  have pd: "paymentData env ?c body = Some ?p"
    using assms by (simp add: paymentData_def asText_def)
  have fk: "findCampaign (db\<lparr>campaigns := campaigns db @ [?c]\<rparr>) (newId env) = Some ?c"
    using assms(17) by (simp add: findCampaign_def find_appended)
  have cp: "createCampaignPayment (db\<lparr>campaigns := campaigns db @ [?c]\<rparr>) ?p
      = Inr (db\<lparr>campaigns := campaigns db @ [?c],
                 campaignPayments := campaignPayments db @ [?p]\<rparr>)"
    using assms(18,19) fk by (simp add: createCampaignPayment_def)
  have "launchTransaction env db co body
      = Some (?c, db\<lparr>campaigns := campaigns db @ [?c],
                      campaignPayments := campaignPayments db @ [?p]\<rparr>)"
    unfolding launchTransaction_def by (simp add: cd cc pd cp)
  then show ?thesis
    using assms by (simp add: launchCampaign_def)
qed

lemma launch_only_if:
  assumes "fst (launchCampaign env db uid body) = Success c"
  shows "\<exists>t d b e m pm tid co.
      l_title body = JStr t \<and> t \<noteq> [] \<and> storesText env t
    \<and> asOptText env (l_description body) = Some d
    \<and> truthy (l_budget body) \<and> parseFloat env (l_budget body) = Some b
    \<and> truthy (l_endDate body) \<and> newDate env (l_endDate body) = Some e
    \<and> truthy (l_maxInternships body) \<and> parseInt env (l_maxInternships body) = Some m
    \<and> isInt32 m
    \<and> l_paymentMethod body = JStr pm \<and> pm \<noteq> [] \<and> storesText env pm
    \<and> asOptText env (l_transactionId body) = Some tid
    \<and> userCompany db uid = Some co
    \<and> \<not> list_ex (\<lambda>d. c_id d = newId env) (campaigns db)
    \<and> \<not> list_ex (\<lambda>q. p_id q = newId2 env) (campaignPayments db)
    \<and> \<not> list_ex (\<lambda>q. p_campaignId q = newId env) (campaignPayments db)"
proof -
  from assms obtain co db' where t: "truthy (l_title body)" "truthy (l_budget body)"
    "truthy (l_endDate body)" "truthy (l_maxInternships body)" "truthy (l_paymentMethod body)"
    and co: "userCompany db uid = Some co"
    and tx: "launchTransaction env db co body = Some (c, db')"
    by (auto simp: launchCampaign_def split: if_splits option.splits)
  from tx obtain c0 tx1 p where cd: "campaignData env co body = Some c0"
    and cc: "createCampaign db c0 = Inr tx1"
    and pd: "paymentData env c0 body = Some p"
    and cp: "createCampaignPayment tx1 p = Inr db'"
    by (auto simp: launchTransaction_def split: option.splits sum.splits)
  from cd obtain t' d b e m where f: "asText env (l_title body) = Some t'"
    "asOptText env (l_description body) = Some d" "parseFloat env (l_budget body) = Some b"
    "newDate env (l_endDate body) = Some e" "parseInt env (l_maxInternships body) = Some m"
    "isInt32 m" and c0: "c_id c0 = newId env"
    by (auto simp: campaignData_def split: option.splits if_splits)
  from pd obtain pm tid where g: "asText env (l_paymentMethod body) = Some pm"
    "asOptText env (l_transactionId body) = Some tid"
    and p: "p_id p = newId2 env" "p_campaignId p = c_id c0"
    by (auto simp: paymentData_def split: option.splits)
  from f(1) t(1) have title: "l_title body = JStr t'" "t' \<noteq> []" "storesText env t'"
    by (auto simp: asText_def split: jsvalue.splits if_splits)
  from g(1) t(5) have paid: "l_paymentMethod body = JStr pm" "pm \<noteq> []" "storesText env pm"
    by (auto simp: asText_def split: jsvalue.splits if_splits)
  from cc c0 have fresh: "\<not> list_ex (\<lambda>d. c_id d = newId env) (campaigns db)"
    and tx1: "campaignPayments tx1 = campaignPayments db"
    by (auto simp: createCampaign_def split: if_splits)
  from cp p c0 tx1 have
    "\<not> list_ex (\<lambda>q. p_id q = newId2 env) (campaignPayments db)"
    "\<not> list_ex (\<lambda>q. p_campaignId q = newId env) (campaignPayments db)"
    by (auto simp: createCampaignPayment_def split: if_splits)
  with title paid f g t co fresh show ?thesis by blast
qed

lemma asOptText_truthy:
  "asOptText env v = Some tid \<Longrightarrow> truthy v \<longleftrightarrow> (\<exists>x. tid = Some x \<and> x \<noteq> [])"
  by (cases v) (auto simp: asOptText_def split: if_splits)

text \<open>
  Claim C5 as stated fails on a transaction id that is the empty string. On the example
  store, the company user u2 launches a campaign and supplies \<^verbatim>\<open>transactionId: ""\<close>: the
  launch succeeds, the payment row stores the empty string as its transaction id, and its
  status is PENDING, not COMPLETED.
\<close>

theorem launch_empty_transaction_id_counterexample:
  "launchCampaign exampleEnv exampleDb ''u2''
     \<lparr>l_title = JStr (js ''Fall''), l_description = JUndefined, l_budget = JNum 2000,
      l_endDate = JNum 9000, l_maxInternships = JNum 3, l_paymentMethod = JStr (js ''card''),
      l_transactionId = JStr []\<rparr>
   = (Success \<lparr>c_id = ''n1'', c_title = js ''Fall'', c_description = None, c_budget = 2000,
           c_status = ACTIVE, c_startDate = 1000, c_endDate = 9000, c_maxInternships = 3,
           c_createdAt = 1000, c_updatedAt = 1000, c_companyId = ''co1''\<rparr>,
      exampleDb\<lparr>campaigns := campaigns exampleDb @
         [\<lparr>c_id = ''n1'', c_title = js ''Fall'', c_description = None, c_budget = 2000,
           c_status = ACTIVE, c_startDate = 1000, c_endDate = 9000, c_maxInternships = 3,
           c_createdAt = 1000, c_updatedAt = 1000, c_companyId = ''co1''\<rparr>],
        campaignPayments := campaignPayments exampleDb @
         [\<lparr>p_id = ''n2'', p_campaignId = ''n1'', p_amount = 2000,
           p_paymentMethod = js ''card'', p_transactionId = Some [],
           p_status = PayPENDING, p_paidAt = None, p_createdAt = 1000\<rparr>]\<rparr>)"
  by (simp add: launchCampaign_def launchTransaction_def campaignData_def paymentData_def
      createCampaign_def createCampaignPayment_def exampleDb_def exampleEnv_def
      userCompany_def findUser_def findCompany_def findCampaign_def asText_def storesText_def
      asOptText_def isInt32_def js_def)

text \<open>
  Claim C5, as amended. A launch either leaves the store as it was and answers with an
  error, or appends exactly one campaign with status ACTIVE and exactly one payment that
  refers to it, no other campaign having its id and no other payment referring to it;
  there is no outcome with one of the two rows alone. The payment's status is COMPLETED
  exactly when the transaction id stored with it is a non-empty string, which is exactly
  when the request's transactionId is truthy, and PENDING otherwise: for an absent
  transactionId, null, or the empty string.

  The launch succeeds, with the campaign and the payment written out below, when the title
  and the payment method are non-empty strings that the store holds, the description and
  the transactionId are absent, null, or strings that the store holds, budget, endDate
  and maxInternships are truthy and are read as a number, a valid date and a 32-bit
  integer, the caller is a user with a company, and the generated ids are unused, no
  payment referring to the campaign's id. It succeeds only then.
\<close>

theorem launch_is_all_or_nothing:
  "((\<exists>r. launchCampaign env db uid body = (r, db) \<and> (\<forall>c. r \<noteq> Success c))
    \<or> (\<exists>c p. launchCampaign env db uid body
          = (Success c, db\<lparr>campaigns := campaigns db @ [c],
                            campaignPayments := campaignPayments db @ [p]\<rparr>)
         \<and> c_status c = ACTIVE \<and> p_campaignId p = c_id c
         \<and> (p_status p = PayCOMPLETED \<longleftrightarrow> (\<exists>x. p_transactionId p = Some x \<and> x \<noteq> []))
         \<and> (p_status p = PayPENDING \<longleftrightarrow> \<not> (\<exists>x. p_transactionId p = Some x \<and> x \<noteq> []))
         \<and> ((\<exists>x. p_transactionId p = Some x \<and> x \<noteq> []) \<longleftrightarrow> truthy (l_transactionId body))
         \<and> \<not> list_ex (\<lambda>d. c_id d = c_id c) (campaigns db)
         \<and> \<not> list_ex (\<lambda>q. p_campaignId q = c_id c) (campaignPayments db)))
   \<and> (l_title body = JStr t \<and> t \<noteq> [] \<and> storesText env t
       \<and> asOptText env (l_description body) = Some d
       \<and> truthy (l_budget body) \<and> parseFloat env (l_budget body) = Some b
       \<and> truthy (l_endDate body) \<and> newDate env (l_endDate body) = Some e
       \<and> truthy (l_maxInternships body) \<and> parseInt env (l_maxInternships body) = Some m
       \<and> isInt32 m
       \<and> l_paymentMethod body = JStr pm \<and> pm \<noteq> [] \<and> storesText env pm
       \<and> asOptText env (l_transactionId body) = Some tid
       \<and> userCompany db uid = Some co
       \<and> \<not> list_ex (\<lambda>d. c_id d = newId env) (campaigns db)
       \<and> \<not> list_ex (\<lambda>q. p_id q = newId2 env) (campaignPayments db)
       \<and> \<not> list_ex (\<lambda>q. p_campaignId q = newId env) (campaignPayments db)
       \<longrightarrow>
       launchCampaign env db uid body =
        (Success \<lparr>c_id = newId env, c_title = t, c_description = d, c_budget = b,
                   c_status = ACTIVE, c_startDate = now env, c_endDate = e,
                   c_maxInternships = m, c_createdAt = now env, c_updatedAt = now env,
                   c_companyId = co_id co\<rparr>,
         db\<lparr>campaigns := campaigns db @
              [\<lparr>c_id = newId env, c_title = t, c_description = d, c_budget = b,
                c_status = ACTIVE, c_startDate = now env, c_endDate = e,
                c_maxInternships = m, c_createdAt = now env, c_updatedAt = now env,
                c_companyId = co_id co\<rparr>],
            campaignPayments := campaignPayments db @
              [\<lparr>p_id = newId2 env, p_campaignId = newId env, p_amount = b,
                p_paymentMethod = pm, p_transactionId = tid,
                p_status = (if truthy (l_transactionId body) then PayCOMPLETED
                            else PayPENDING),
                p_paidAt = None, p_createdAt = now env\<rparr>]\<rparr>))
   \<and> ((\<exists>c. fst (launchCampaign env db uid body) = Success c) \<longrightarrow>
       (\<exists>t d b e m pm tid co.
          l_title body = JStr t \<and> t \<noteq> [] \<and> storesText env t
        \<and> asOptText env (l_description body) = Some d
        \<and> truthy (l_budget body) \<and> parseFloat env (l_budget body) = Some b
        \<and> truthy (l_endDate body) \<and> newDate env (l_endDate body) = Some e
        \<and> truthy (l_maxInternships body) \<and> parseInt env (l_maxInternships body) = Some m
        \<and> isInt32 m
        \<and> l_paymentMethod body = JStr pm \<and> pm \<noteq> [] \<and> storesText env pm
        \<and> asOptText env (l_transactionId body) = Some tid
        \<and> userCompany db uid = Some co
        \<and> \<not> list_ex (\<lambda>d. c_id d = newId env) (campaigns db)
        \<and> \<not> list_ex (\<lambda>q. p_id q = newId2 env) (campaignPayments db)
        \<and> \<not> list_ex (\<lambda>q. p_campaignId q = newId env) (campaignPayments db)))"
  (is "?atomic \<and> (?cond t d b e m pm tid co \<longrightarrow> ?created) \<and> (?succeeds \<longrightarrow> ?accepted)")
proof (intro conjI impI)
  show ?accepted if ?succeeds
    using that launch_only_if [of env db uid body] by blast
  show ?created if "?cond t d b e m pm tid co"
    using that by (intro launch_creates) blast+
  show ?atomic
  proof (cases ?succeeds)
    case False
    with launchCampaign_cases [of env db uid body] show ?thesis by auto
  next
    case True
    then obtain t d b e m pm tid co where h:
      "l_title body = JStr t" "t \<noteq> []" "storesText env t"
      "asOptText env (l_description body) = Some d"
      "truthy (l_budget body)" "parseFloat env (l_budget body) = Some b"
      "truthy (l_endDate body)" "newDate env (l_endDate body) = Some e"
      "truthy (l_maxInternships body)" "parseInt env (l_maxInternships body) = Some m"
      "isInt32 m"
      "l_paymentMethod body = JStr pm" "pm \<noteq> []" "storesText env pm"
      "asOptText env (l_transactionId body) = Some tid"
      "userCompany db uid = Some co"
      "\<not> list_ex (\<lambda>d. c_id d = newId env) (campaigns db)"
      "\<not> list_ex (\<lambda>q. p_id q = newId2 env) (campaignPayments db)"
      "\<not> list_ex (\<lambda>q. p_campaignId q = newId env) (campaignPayments db)"
      using launch_only_if [of env db uid body] by blast
    let ?c = "\<lparr>c_id = newId env, c_title = t, c_description = d, c_budget = b,
               c_status = ACTIVE, c_startDate = now env, c_endDate = e,
               c_maxInternships = m, c_createdAt = now env, c_updatedAt = now env,
               c_companyId = co_id co\<rparr>"
    let ?p = "\<lparr>p_id = newId2 env, p_campaignId = newId env, p_amount = b,
            p_paymentMethod = pm, p_transactionId = tid,
            p_status = (if truthy (l_transactionId body) then PayCOMPLETED else PayPENDING),
            p_paidAt = None, p_createdAt = now env\<rparr>"
    have run: "launchCampaign env db uid body
        = (Success ?c, db\<lparr>campaigns := campaigns db @ [?c],
                            campaignPayments := campaignPayments db @ [?p]\<rparr>)"
      using h by (rule launch_creates)
    have tr: "truthy (l_transactionId body) \<longleftrightarrow> (\<exists>x. tid = Some x \<and> x \<noteq> [])"
      using h(15) by (rule asOptText_truthy)
    have "launchCampaign env db uid body
          = (Success ?c, db\<lparr>campaigns := campaigns db @ [?c],
                            campaignPayments := campaignPayments db @ [?p]\<rparr>)
         \<and> c_status ?c = ACTIVE \<and> p_campaignId ?p = c_id ?c
         \<and> (p_status ?p = PayCOMPLETED \<longleftrightarrow> (\<exists>x. p_transactionId ?p = Some x \<and> x \<noteq> []))
         \<and> (p_status ?p = PayPENDING \<longleftrightarrow> \<not> (\<exists>x. p_transactionId ?p = Some x \<and> x \<noteq> []))
         \<and> ((\<exists>x. p_transactionId ?p = Some x \<and> x \<noteq> []) \<longleftrightarrow> truthy (l_transactionId body))
         \<and> \<not> list_ex (\<lambda>d. c_id d = c_id ?c) (campaigns db)
         \<and> \<not> list_ex (\<lambda>q. p_campaignId q = c_id ?c) (campaignPayments db)"
      using run tr h(17,19) by simp
    then show ?thesis by blast
  qed
qed

text \<open>
  The theorem on the example store: a launch by the company user u2 with a transaction id
  meets the conditions and creates both rows, the payment COMPLETED; the launch without a
  transaction id creates both rows, the payment PENDING; the launch whose payment method
  is a number fails on the payment, after the campaign was created inside the
  transaction, and the store is as it was.
\<close>

theorem launch_is_all_or_nothing_witness:
  "launchCampaign exampleEnv exampleDb ''u2''
     \<lparr>l_title = JStr (js ''Fall''), l_description = JUndefined, l_budget = JNum 2000,
      l_endDate = JNum 9000, l_maxInternships = JNum 3, l_paymentMethod = JStr (js ''card''),
      l_transactionId = JStr (js ''tx9'')\<rparr>
   = (Success \<lparr>c_id = ''n1'', c_title = js ''Fall'', c_description = None, c_budget = 2000,
           c_status = ACTIVE, c_startDate = 1000, c_endDate = 9000, c_maxInternships = 3,
           c_createdAt = 1000, c_updatedAt = 1000, c_companyId = ''co1''\<rparr>,
      exampleDb\<lparr>campaigns := campaigns exampleDb @
         [\<lparr>c_id = ''n1'', c_title = js ''Fall'', c_description = None, c_budget = 2000,
           c_status = ACTIVE, c_startDate = 1000, c_endDate = 9000, c_maxInternships = 3,
           c_createdAt = 1000, c_updatedAt = 1000, c_companyId = ''co1''\<rparr>],
        campaignPayments := campaignPayments exampleDb @
         [\<lparr>p_id = ''n2'', p_campaignId = ''n1'', p_amount = 2000,
           p_paymentMethod = js ''card'', p_transactionId = Some (js ''tx9''),
           p_status = PayCOMPLETED, p_paidAt = None, p_createdAt = 1000\<rparr>]\<rparr>)
   \<and> snd (launchCampaign exampleEnv exampleDb ''u2''
     \<lparr>l_title = JStr (js ''Fall''), l_description = JUndefined, l_budget = JNum 2000,
      l_endDate = JNum 9000, l_maxInternships = JNum 3, l_paymentMethod = JStr (js ''card''),
      l_transactionId = JUndefined\<rparr>)
   = exampleDb\<lparr>campaigns := campaigns exampleDb @
         [\<lparr>c_id = ''n1'', c_title = js ''Fall'', c_description = None, c_budget = 2000,
           c_status = ACTIVE, c_startDate = 1000, c_endDate = 9000, c_maxInternships = 3,
           c_createdAt = 1000, c_updatedAt = 1000, c_companyId = ''co1''\<rparr>],
        campaignPayments := campaignPayments exampleDb @
         [\<lparr>p_id = ''n2'', p_campaignId = ''n1'', p_amount = 2000,
           p_paymentMethod = js ''card'', p_transactionId = None,
           p_status = PayPENDING, p_paidAt = None, p_createdAt = 1000\<rparr>]\<rparr>
   \<and> launchCampaign exampleEnv exampleDb ''u2''
     \<lparr>l_title = JStr (js ''Fall''), l_description = JUndefined, l_budget = JNum 2000,
      l_endDate = JNum 9000, l_maxInternships = JNum 3, l_paymentMethod = JNum 5,
      l_transactionId = JStr (js ''tx9'')\<rparr>
   = (InternalError, exampleDb)"
  using launch_is_all_or_nothing [where env = exampleEnv and db = exampleDb and uid = "''u2''"
     and body = "\<lparr>l_title = JStr (js ''Fall''), l_description = JUndefined, l_budget = JNum 2000,
      l_endDate = JNum 9000, l_maxInternships = JNum 3, l_paymentMethod = JStr (js ''card''),
      l_transactionId = JStr (js ''tx9'')\<rparr>"
     and t = "js ''Fall''" and d = None and b = 2000 and e = 9000 and m = 3
     and pm = "js ''card''" and tid = "Some (js ''tx9'')"
     and co = "the (findCompany exampleDb ''co1'')"]
  by (simp add: launchCampaign_def launchTransaction_def campaignData_def paymentData_def
      createCampaign_def createCampaignPayment_def exampleDb_def exampleEnv_def
      userCompany_def findUser_def findCompany_def findCampaign_def asText_def storesText_def
      asOptText_def isInt32_def js_def)

section \<open>The frame of the campaign edit\<close>

lemma editableStatus_cases:
  "editableStatus v = None \<or> editableStatus v = Some ACTIVE
   \<or> editableStatus v = Some PAUSED \<or> editableStatus v = Some COMPLETED"
  by (simp add: editableStatus_def split: jsvalue.splits)

lemma editableStatus_expired: "editableStatus (JStr (js ''EXPIRED'')) = None"
  by (simp add: editableStatus_def js_def)

lemma buildUpdateData_status:
  "buildUpdateData env body = Some ud \<Longrightarrow> ud_status ud = editableStatus (e_status body)"
  by (auto simp: buildUpdateData_def split: option.splits if_splits)

lemma writeUpdateData_frame:
  "c_id (writeUpdateData env ud c) = c_id c"
  "c_budget (writeUpdateData env ud c) = c_budget c"
  "c_maxInternships (writeUpdateData env ud c) = c_maxInternships c"
  "c_startDate (writeUpdateData env ud c) = c_startDate c"
  "c_createdAt (writeUpdateData env ud c) = c_createdAt c"
  "c_companyId (writeUpdateData env ud c) = c_companyId c"
  "c_status (writeUpdateData env ud c) = (case ud_status ud of None \<Rightarrow> c_status c | Some st \<Rightarrow> st)"
  by (simp_all add: writeUpdateData_def)

lemma editCampaign_run:
  assumes "userCompany db uid = Some co"
    and "find (\<lambda>c. c_id c = cid \<and> c_companyId c = co_id co) (campaigns db) = Some c"
  shows "editCampaign env db uid cid body =
    (case buildUpdateData env body of
       None \<Rightarrow> (InternalError, db)
     | Some ud \<Rightarrow>
         (Success (writeUpdateData env ud c),
          db\<lparr>campaigns := map (\<lambda>d. if c_id d = cid then writeUpdateData env ud d else d)
                             (campaigns db)\<rparr>))"
  using assms by (simp add: editCampaign_def split: option.splits)

lemma map_keeps_other_rows:
  "d \<in> set xs \<Longrightarrow> k d \<noteq> cid \<Longrightarrow> d \<in> set (map (\<lambda>x. if k x = cid then f x else x) xs)"
  by (induction xs) auto

text \<open>
  Claim C8, as amended. An edit of a campaign owned by the calling company either fails
  in the store layer and changes nothing, or succeeds, and then the campaign keeps its
  id, budget, maxInternships, startDate, createdAt and companyId (title, description,
  endDate, status and the store-maintained updatedAt are the fields written); its status
  is the status before the edit or one of ACTIVE, PAUSED, COMPLETED, it is EXPIRED only
  if it was before, and a request carrying status EXPIRED leaves it as it was. The other
  tables and the other campaigns are unchanged.
\<close>

theorem edit_changes_only_editable_fields:
  assumes "userCompany db uid = Some co"
    and "find (\<lambda>c. c_id c = cid \<and> c_companyId c = co_id co) (campaigns db) = Some c"
  shows "editCampaign env db uid cid body = (InternalError, db)
    \<or> (\<exists>c'. fst (editCampaign env db uid cid body) = Success c'
         \<and> find (\<lambda>c. c_id c = cid \<and> c_companyId c = co_id co)
              (campaigns (snd (editCampaign env db uid cid body))) = Some c'
         \<and> c_id c' = c_id c \<and> c_budget c' = c_budget c
         \<and> c_maxInternships c' = c_maxInternships c \<and> c_startDate c' = c_startDate c
         \<and> c_createdAt c' = c_createdAt c \<and> c_companyId c' = c_companyId c
         \<and> (c_status c' = c_status c \<or> c_status c' \<in> {ACTIVE, PAUSED, COMPLETED})
         \<and> (c_status c \<noteq> EXPIRED \<longrightarrow> c_status c' \<noteq> EXPIRED)
         \<and> (e_status body = JStr (js ''EXPIRED'') \<longrightarrow> c_status c' = c_status c)
         \<and> snd (editCampaign env db uid cid body)
             = db\<lparr>campaigns := campaigns (snd (editCampaign env db uid cid body))\<rparr>
         \<and> map c_id (campaigns (snd (editCampaign env db uid cid body)))
             = map c_id (campaigns db)
         \<and> (\<forall>d. d \<in> set (campaigns db) \<and> c_id d \<noteq> cid \<longrightarrow>
               d \<in> set (campaigns (snd (editCampaign env db uid cid body)))))"
proof (cases "buildUpdateData env body")
  case None
  then show ?thesis using editCampaign_run [OF assms] by simp
next
  case (Some ud)
  let ?g = "\<lambda>d. if c_id d = cid then writeUpdateData env ud d else d"
  let ?c = "writeUpdateData env ud c"
  have run: "editCampaign env db uid cid body
      = (Success ?c, db\<lparr>campaigns := map ?g (campaigns db)\<rparr>)"
    using editCampaign_run [OF assms] Some by simp
  have cid: "c_id c = cid" using assms(2) by (auto simp: find_Some_iff)
  have "find (\<lambda>c. c_id c = cid \<and> c_companyId c = co_id co) (map ?g (campaigns db))
      = Some (?g c)"
    using assms(2) by (rule find_updated_row) (simp add: writeUpdateData_frame)
  then have found: "find (\<lambda>c. c_id c = cid \<and> c_companyId c = co_id co) (map ?g (campaigns db))
      = Some ?c"
    using cid by simp
  have st: "c_status ?c = (case editableStatus (e_status body) of
      None \<Rightarrow> c_status c | Some st \<Rightarrow> st)"
    using buildUpdateData_status [OF Some] by (simp add: writeUpdateData_frame)
  have s1: "c_status ?c = c_status c \<or> c_status ?c \<in> {ACTIVE, PAUSED, COMPLETED}"
    using editableStatus_cases [of "e_status body"] st by auto
  have s2: "c_status c \<noteq> EXPIRED \<longrightarrow> c_status ?c \<noteq> EXPIRED"
    using editableStatus_cases [of "e_status body"] st by auto
  have s3: "e_status body = JStr (js ''EXPIRED'') \<longrightarrow> c_status ?c = c_status c"
    using st by (auto simp: editableStatus_expired)
  have ids: "map c_id (map ?g (campaigns db)) = map c_id (campaigns db)"
    by (induction "campaigns db") (auto simp: writeUpdateData_frame)
  have others: "\<forall>d. d \<in> set (campaigns db) \<and> c_id d \<noteq> cid \<longrightarrow>
      d \<in> set (map ?g (campaigns db))"
    using map_keeps_other_rows [of _ "campaigns db" c_id cid] by blast
  show ?thesis
    apply (rule disjI2)
    apply (rule exI [of _ ?c])
    using found s1 s2 s3 ids others
    apply (simp only: run fst_conv snd_conv writeUpdateData_frame(1-6))
    apply simp
    done
qed

text \<open>
  Claim C8 as stated fails: the stored status after an edit is not always one of ACTIVE,
  PAUSED, COMPLETED. The owner renames the expired campaign of the example store; the
  edit succeeds and the stored status is EXPIRED.
\<close>

theorem edit_keeps_expired_counterexample:
  "fst (editCampaign exampleEnv exampleDb ''u2'' ''c3''
         \<lparr>e_title = JStr (js ''Spring sale''), e_description = JUndefined,
          e_endDate = JUndefined, e_status = JUndefined\<rparr>)
     = Success \<lparr>c_id = ''c3'', c_title = js ''Spring sale'', c_description = None,
         c_budget = 1000, c_status = EXPIRED, c_startDate = 10, c_endDate = 90,
         c_maxInternships = 2, c_createdAt = 10, c_updatedAt = 1000, c_companyId = ''co1''\<rparr>
   \<and> findCampaign (snd (editCampaign exampleEnv exampleDb ''u2'' ''c3''
         \<lparr>e_title = JStr (js ''Spring sale''), e_description = JUndefined,
          e_endDate = JUndefined, e_status = JUndefined\<rparr>)) ''c3''
     = Some \<lparr>c_id = ''c3'', c_title = js ''Spring sale'', c_description = None,
         c_budget = 1000, c_status = EXPIRED, c_startDate = 10, c_endDate = 90,
         c_maxInternships = 2, c_createdAt = 10, c_updatedAt = 1000, c_companyId = ''co1''\<rparr>
   \<and> EXPIRED \<notin> {ACTIVE, PAUSED, COMPLETED}"
  by (simp add: editCampaign_def buildUpdateData_def writeUpdateData_def editableStatus_def
      exampleDb_def exampleEnv_def userCompany_def findUser_def findCompany_def
      findCampaign_def asText_def storesText_def js_def)

text \<open>
  The theorem on the active campaign of the example store: a request carrying EXPIRED
  (with a description and an end date), and a request carrying PAUSED.
\<close>

theorem edit_changes_only_editable_fields_witness:
  "fst (editCampaign exampleEnv exampleDb ''u2'' ''c1''
         \<lparr>e_title = JUndefined, e_description = JStr (js ''Hiring''),
          e_endDate = JNum 9500, e_status = JStr (js ''EXPIRED'')\<rparr>)
     = Success \<lparr>c_id = ''c1'', c_title = js ''Summer'', c_description = Some (js ''Hiring''),
         c_budget = 5000, c_status = ACTIVE, c_startDate = 100, c_endDate = 9500,
         c_maxInternships = 10, c_createdAt = 100, c_updatedAt = 1000, c_companyId = ''co1''\<rparr>
   \<and> fst (editCampaign exampleEnv exampleDb ''u2'' ''c1''
         \<lparr>e_title = JUndefined, e_description = JUndefined,
          e_endDate = JUndefined, e_status = JStr (js ''PAUSED'')\<rparr>)
     = Success \<lparr>c_id = ''c1'', c_title = js ''Summer'', c_description = None,
         c_budget = 5000, c_status = PAUSED, c_startDate = 100, c_endDate = 9000,
         c_maxInternships = 10, c_createdAt = 100, c_updatedAt = 1000, c_companyId = ''co1''\<rparr>"
  using
    edit_changes_only_editable_fields [where db = exampleDb and env = exampleEnv
      and uid = "''u2''" and cid = "''c1''"
      and co = "\<lparr>co_id = ''co1'', co_name = js ''Acme'', co_website = None, co_logoUrl = None,
         co_description = None\<rparr>"
      and c = "\<lparr>c_id = ''c1'', c_title = js ''Summer'', c_description = None, c_budget = 5000,
         c_status = ACTIVE, c_startDate = 100, c_endDate = 9000, c_maxInternships = 10,
         c_createdAt = 100, c_updatedAt = 100, c_companyId = ''co1''\<rparr>"
      and body = "\<lparr>e_title = JUndefined, e_description = JStr (js ''Hiring''),
          e_endDate = JNum 9500, e_status = JStr (js ''EXPIRED'')\<rparr>"]
    edit_changes_only_editable_fields [where db = exampleDb and env = exampleEnv
      and uid = "''u2''" and cid = "''c1''"
      and co = "\<lparr>co_id = ''co1'', co_name = js ''Acme'', co_website = None, co_logoUrl = None,
         co_description = None\<rparr>"
      and c = "\<lparr>c_id = ''c1'', c_title = js ''Summer'', c_description = None, c_budget = 5000,
         c_status = ACTIVE, c_startDate = 100, c_endDate = 9000, c_maxInternships = 10,
         c_createdAt = 100, c_updatedAt = 100, c_companyId = ''co1''\<rparr>"
      and body = "\<lparr>e_title = JUndefined, e_description = JUndefined,
          e_endDate = JUndefined, e_status = JStr (js ''PAUSED'')\<rparr>"]
  by (simp add: editCampaign_def buildUpdateData_def writeUpdateData_def editableStatus_def
      exampleDb_def exampleEnv_def userCompany_def findUser_def findCompany_def
      findCampaign_def asText_def storesText_def asOptText_def js_def)

section \<open>The quota at cap 0, and the racing duplicate\<close>

text \<open>
  Claim C4 at a plan whose cap is 0. The student's only active subscription refers to a
  plan with maxApplicationsPerMonth = 0, and the student has one application since the
  start of the month, so usage 1 has reached the cap 0; the quota check is skipped (0 is
  falsy) and the application is created.
\<close>

theorem zero_cap_is_not_enforced:
  "activeSubscription exampleDb (now exampleEnv) ''u3''
     = Some \<lparr>s_id = ''s3'', s_userId = ''u3'', s_planId = ''pl0'', s_status = SubACTIVE,
         s_startedAt = 500, s_endsAt = 5000, s_createdAt = 500, s_updatedAt = 500\<rparr>
   \<and> map_option pl_maxApplicationsPerMonth (findPlan exampleDb ''pl0'') = Some (Some 0)
   \<and> applicationsThisMonth exampleEnv exampleDb ''u3'' = 1
   \<and> applyToInternship exampleEnv exampleDb ''u3'' ''i3'' (JStr (replicate 60 0x61))
     = (Success \<lparr>a_id = ''n1'', a_coverLetter = Some (replicate 60 0x61), a_status = PENDING,
                 a_createdAt = 1000, a_updatedAt = 1000, a_internshipId = ''i3'',
                 a_userId = ''u3''\<rparr>,
        exampleDb\<lparr>applications := applications exampleDb @
          [\<lparr>a_id = ''n1'', a_coverLetter = Some (replicate 60 0x61), a_status = PENDING,
            a_createdAt = 1000, a_updatedAt = 1000, a_internshipId = ''i3'',
            a_userId = ''u3''\<rparr>]\<rparr>)"
  by (simp add: applyToInternship_def applyChecks_def applyCreate_def createApplication_def storesText_def
      exampleDb_def exampleEnv_def findInternship_def findCampaign_def findApplication_def
      activeSubscription_def findUser_def findPlan_def applicationsThisMonth_def
      trim_replicate not_ws_a Let_def)

text \<open>
  Claim C7 on two concurrent apply requests of one student for one internship. Both run
  their checks on the example store and pass; the first creates its row; the creation of
  the second then meets the unique index on (internshipId, userId). It is answered with
  InternalError (500), not with DuplicateApplication; the store keeps exactly one row for
  the pair.
\<close>

theorem racing_duplicate_is_internal_error:
  "applyChecks exampleEnv exampleDb ''u1'' ''i1'' (JStr (replicate 60 0x61))
     = Inr (replicate 60 0x61)
   \<and> fst (applyToInternship (exampleEnv\<lparr>newId := ''r1''\<rparr>) exampleDb ''u1'' ''i1''
        (JStr (replicate 60 0x61)))
     = Success \<lparr>a_id = ''r1'', a_coverLetter = Some (replicate 60 0x61), a_status = PENDING,
                 a_createdAt = 1000, a_updatedAt = 1000, a_internshipId = ''i1'',
                 a_userId = ''u1''\<rparr>
   \<and> applyCreate exampleEnv
        (snd (applyToInternship (exampleEnv\<lparr>newId := ''r1''\<rparr>) exampleDb ''u1'' ''i1''
           (JStr (replicate 60 0x61))))
        ''u1'' ''i1'' (replicate 60 0x61)
     = (InternalError,
        snd (applyToInternship (exampleEnv\<lparr>newId := ''r1''\<rparr>) exampleDb ''u1'' ''i1''
           (JStr (replicate 60 0x61))))
   \<and> length (filter (\<lambda>a. a_internshipId a = ''i1'' \<and> a_userId a = ''u1'')
        (applications
          (snd (applyToInternship (exampleEnv\<lparr>newId := ''r1''\<rparr>) exampleDb ''u1'' ''i1''
             (JStr (replicate 60 0x61)))))) = 1"
  by (simp add: applyToInternship_def applyChecks_def applyCreate_def createApplication_def storesText_def
      exampleDb_def exampleEnv_def findInternship_def findCampaign_def findApplication_def
      activeSubscription_def findUser_def findPlan_def applicationsThisMonth_def
      trim_replicate not_ws_a Let_def)

text \<open>
  The signups do tell the unique-constraint violation apart: a creation rejected with
  P2002 after the handler's own lookup passed is answered with Conflict (409).
\<close>

lemma signup_reports_constraint_violation:
  "createUser exampleDb
     \<lparr>u_id = ''u1'', u_email = js ''dee@example.org'', u_password = js ''secret1'',
      u_name = js ''Dee'', u_role = STUDENT, u_companyId = None\<rparr> = Inl P2002
   \<and> studentSignup (exampleEnv\<lparr>newId := ''u1''\<rparr>) exampleDb
     \<lparr>ss_name = JStr (js ''Dee''), ss_email = JStr (js ''dee@example.org''),
      ss_password = JStr (js ''secret1'')\<rparr> = (Conflict, exampleDb)"
  by (simp add: studentSignup_def createUser_def exampleDb_def exampleEnv_def asText_def storesText_def
      js_def)

end
